theory Spec2Isabelle
  imports Complex_Main
begin

section \<open>Data model of the physics namespace\<close>

text \<open>
  JavaScript numbers are modelled as mathematical reals: the arithmetic of the engine is
  read as exact arithmetic, \<open>Math.sqrt\<close> and \<open>** .5\<close> as the real square root. Rounding,
  infinities and NaN are outside the model; where JavaScript divides by zero the model has
  HOL's \<open>x / 0 = 0\<close>. Objects of type \<open>Vector2\<close> are modelled as values: the step of the
  world replaces the vectors of a body or writes to vectors that the engine has made for
  that body alone. \<open>Body\<close> objects, which the world's collections share by reference,
  live in a store (see below).
\<close>

datatype ShapeType = CIRCLE | RECTANGLE

datatype Vector2 = newVec2 (vx: real) (vy: real)

record Joint =
  bodyA :: nat
  bodyB :: nat
  distance :: real
  rigidity :: real
  elasticity :: real

record CollisionDetails =
  cdepth :: real
  normal :: Vector2
  start :: Vector2
  cend :: Vector2

record Collision =
  bodyAId :: nat
  bodyBId :: nat
  depth :: real

text \<open>
  The field \<open>mass\<close> holds the inverse mass (0 for an immovable body), as in the source.
  The opaque user field \<open>data\<close> is never read or written by the engine and is left out.
\<close>

record Body =
  body_id :: nat
  btype :: ShapeType
  center :: Vector2
  averageCenter :: Vector2
  friction :: real
  restitution :: real
  mass :: real
  velocity :: Vector2
  acceleration :: Vector2
  angle :: real
  averageAngle :: real
  angularVelocity :: real
  angularAcceleration :: real
  bounds :: real
  boundingBox :: Vector2
  width :: real
  height :: real
  inertia :: real
  faceNormals :: "Vector2 list"
  vertices :: "Vector2 list"
  pinned :: bool
  restingTime :: real
  static :: bool
  permeability :: real

section \<open>Vector arithmetic\<close>

definition dotProduct :: "Vector2 \<Rightarrow> Vector2 \<Rightarrow> real" where
  "dotProduct v w = vx v * vx w + vy v * vy w"

definition crossProduct :: "Vector2 \<Rightarrow> Vector2 \<Rightarrow> real" where
  "crossProduct v w = vx v * vy w - vy v * vx w"

definition lengthVec2 :: "Vector2 \<Rightarrow> real" where
  "lengthVec2 v = sqrt (dotProduct v v)"

definition addVec2 :: "Vector2 \<Rightarrow> Vector2 \<Rightarrow> Vector2" where
  "addVec2 v w = newVec2 (vx v + vx w) (vy v + vy w)"

definition scaleVec2 :: "Vector2 \<Rightarrow> real \<Rightarrow> Vector2" where
  "scaleVec2 v n = newVec2 (vx v * n) (vy v * n)"

definition subtractVec2 :: "Vector2 \<Rightarrow> Vector2 \<Rightarrow> Vector2" where
  "subtractVec2 v w = addVec2 v (scaleVec2 w (- 1))"

definition rotateVec2 :: "Vector2 \<Rightarrow> Vector2 \<Rightarrow> real \<Rightarrow> Vector2" where
  "rotateVec2 v c a =
     (let x = vx v - vx c; y = vy v - vy c
      in newVec2 (x * cos a - y * sin a + vx c) (x * sin a + y * cos a + vy c))"

text \<open>\<open>lengthVec2(v) || 1\<close>: the length, or 1 when the length is 0.\<close>

definition normalizeVec2 :: "Vector2 \<Rightarrow> Vector2" where
  "normalizeVec2 v = scaleVec2 v (1 / (if lengthVec2 v = 0 then 1 else lengthVec2 v))"

section \<open>The store of bodies and the world\<close>

text \<open>
  Bodies are shared mutable objects: the world's three collections hold references to
  them, and \<open>worldStep\<close> mutates them in place. A reference is a natural number, the
  store maps references to the bodies they denote, and the collections are lists of
  references.
\<close>

type_synonym ref = nat

type_synonym heap = "ref \<Rightarrow> Body"

record World =
  dynamicBodies :: "ref list"
  staticBodies :: "ref list"
  disabledBodies :: "ref list"
  gravity :: Vector2
  angularDamp :: real
  damp :: real
  nextId :: nat
  joints :: "Joint list"

definition allBodies :: "World \<Rightarrow> ref list" where
  "allBodies world = dynamicBodies world @ staticBodies world @ disabledBodies world"

definition enabledBodies :: "World \<Rightarrow> ref list" where
  "enabledBodies world = dynamicBodies world @ staticBodies world"

text \<open>
  Reading a missing array element gives \<open>undefined\<close>, and the vector functions throw a
  \<open>TypeError\<close> when they read a coordinate of \<open>undefined\<close>. A computation on the store
  returns the store as it is when the computation ends, normally or by the exception.
\<close>

datatype error = TypeError

type_synonym 'a M = "heap \<Rightarrow> (error + 'a) \<times> heap"

definition ret :: "'a \<Rightarrow> 'a M" where
  "ret a h = (Inr a, h)"

definition bind :: "'a M \<Rightarrow> ('a \<Rightarrow> 'b M) \<Rightarrow> 'b M" where
  "bind m f h = (case m h of (Inl e, h') \<Rightarrow> (Inl e, h') | (Inr a, h') \<Rightarrow> f a h')"

text \<open>Running a function of one body on the body a reference denotes.\<close>

definition onBody :: "ref \<Rightarrow> (Body \<Rightarrow> (error + 'a) \<times> Body) \<Rightarrow> 'a M" where
  "onBody r f h = (case f (h r) of (res, b) \<Rightarrow> (res, h(r := b)))"

definition update :: "ref \<Rightarrow> (Body \<Rightarrow> Body) \<Rightarrow> unit M" where
  "update r f h = (Inr (), h(r := f (h r)))"

text \<open>\<open>for (const x of xs) f(x)\<close>, and a loop that carries local variables.\<close>

fun forEach :: "'a list \<Rightarrow> ('a \<Rightarrow> unit M) \<Rightarrow> unit M" where
  "forEach [] f = ret ()"
| "forEach (x # xs) f = bind (f x) (\<lambda>_. forEach xs f)"

fun foldM :: "('a \<Rightarrow> 'b \<Rightarrow> 'b M) \<Rightarrow> 'a list \<Rightarrow> 'b \<Rightarrow> 'b M" where
  "foldM f [] acc = ret acc"
| "foldM f (x # xs) acc = bind (f x acc) (foldM f xs)"

section \<open>Moving and rotating a body\<close>

definition calcBoundingBox :: "Body \<Rightarrow> Body" where
  "calcBoundingBox body =
     (if btype body = CIRCLE then body\<lparr>boundingBox := newVec2 (bounds body) (bounds body)\<rparr>
      else body\<lparr>boundingBox :=
             foldl (\<lambda>bb v. newVec2 (max (vx bb) \<bar>vx (center body) - vx v\<bar>)
                                   (max (vy bb) \<bar>vy (center body) - vy v\<bar>))
                   (newVec2 0 0) (vertices body)\<rparr>)"

text \<open>
  \<open>for (let i = 4; i--;) vertices[i] = f(vertices[i])\<close> visits the indices 3, 2, 1, 0.
  The first read is of index 3, so on an array of fewer than four elements the loop
  throws before it writes; the two functions that run the loop test the length first.
\<close>

fun updateVertices :: "nat \<Rightarrow> (Vector2 \<Rightarrow> Vector2) \<Rightarrow> Vector2 list \<Rightarrow> Vector2 list" where
  "updateVertices 0 f vs = vs"
| "updateVertices (Suc i) f vs = updateVertices i f (vs[i := f (vs ! i)])"

text \<open>
  \<open>_moveBody(body, v, force)\<close>; the exported \<open>moveBody(body, v)\<close> is the forced
  variant.
\<close>

definition moveBody' :: "Body \<Rightarrow> Vector2 \<Rightarrow> bool \<Rightarrow> (error + unit) \<times> Body" where
  "moveBody' body v force =
     (if \<not> force \<and> (pinned body \<or> mass body = 0) then (Inr (), body)
      else
        let b1 = body\<lparr>center := addVec2 (center body) v\<rparr>
        in if btype b1 = RECTANGLE then
             (if length (vertices b1) < 4 then (Inl TypeError, b1)
              else (Inr (), calcBoundingBox
                      (b1\<lparr>vertices := updateVertices 4 (\<lambda>u. addVec2 u v) (vertices b1)\<rparr>)))
           else (Inr (), b1))"

definition moveBody :: "Body \<Rightarrow> Vector2 \<Rightarrow> (error + unit) \<times> Body" where
  "moveBody body v = moveBody' body v True"

text \<open>
  \<open>computeRectNormals\<close> assigns \<open>faceNormals[i]\<close> for i = 3, 2, 1, 0, which extends a
  shorter array; after the loop the first four elements are the new normals and any
  further elements are kept. It reads the first four vertices; its caller \<open>rotateBody\<close>
  reaches it only after its own vertex loop has found four of them.
\<close>

definition computeRectNormals :: "Body \<Rightarrow> Body" where
  "computeRectNormals shape =
     shape\<lparr>faceNormals :=
       map (\<lambda>i. normalizeVec2 (subtractVec2 (vertices shape ! ((i + 1) mod 4))
                                              (vertices shape ! ((i + 2) mod 4))))
           [0, 1, 2, 3]
       @ drop 4 (faceNormals shape)\<rparr>"

definition rotateBody :: "Body \<Rightarrow> real \<Rightarrow> (error + unit) \<times> Body" where
  "rotateBody body a =
     (let b1 = body\<lparr>angle := angle body + a\<rparr>
      in if btype b1 = RECTANGLE then
           (if length (vertices b1) < 4 then (Inl TypeError, b1)
            else (Inr (), calcBoundingBox (computeRectNormals
                    (b1\<lparr>vertices :=
                          updateVertices 4 (\<lambda>u. rotateVec2 u (center b1) a) (vertices b1)\<rparr>))))
         else (Inr (), b1))"

section \<open>Collision detection\<close>

definition EmptyCollision :: CollisionDetails where
  "EmptyCollision = \<lparr>cdepth = 0, normal = newVec2 0 0, start = newVec2 0 0, cend = newVec2 0 0\<rparr>"

definition setCollisionInfo ::
  "CollisionDetails \<Rightarrow> real \<Rightarrow> Vector2 \<Rightarrow> Vector2 \<Rightarrow> CollisionDetails" where
  "setCollisionInfo collision D N S =
     collision\<lparr>cdepth := D, normal := newVec2 (vx N) (vy N), start := newVec2 (vx S) (vy S),
               cend := addVec2 S (scaleVec2 N D)\<rparr>"

definition boundTest :: "Body \<Rightarrow> Body \<Rightarrow> bool" where
  "boundTest s1 s2 =
     (let coincideX = \<bar>vx (center s1) - vx (center s2)\<bar> < vx (boundingBox s1) + vx (boundingBox s2);
          coincideY = \<bar>vy (center s1) - vy (center s2)\<bar> < vy (boundingBox s1) + vy (boundingBox s2)
      in coincideX \<and> coincideY)"

text \<open>
  The inner loop of \<open>findAxisLeastPenetration\<close>, over the vertices j = 3, 2, 1, 0 of the
  other rectangle. The accumulator is \<open>(tmpSupportPoint, tmpSupportPointDist)\<close>, with
  \<open>None\<close> for the initial \<open>-1\<close> of \<open>tmpSupportPoint\<close>.
\<close>

fun supportLoop ::
  "nat \<Rightarrow> Vector2 list \<Rightarrow> Vector2 \<Rightarrow> Vector2 \<Rightarrow> Vector2 option \<times> real \<Rightarrow> Vector2 option \<times> real" where
  "supportLoop 0 ovs ptOnEdge dir acc = acc"
| "supportLoop (Suc j) ovs ptOnEdge dir (tmpSupportPoint, tmpSupportPointDist) =
     (let vToEdge = subtractVec2 (ovs ! j) ptOnEdge;
          projection = dotProduct vToEdge dir
      in if projection > 0 \<and> projection > tmpSupportPointDist
         then supportLoop j ovs ptOnEdge dir (Some (ovs ! j), projection)
         else supportLoop j ovs ptOnEdge dir (tmpSupportPoint, tmpSupportPointDist))"

text \<open>
  The outer loop \<open>for (i = 4; hasSupport && i--;)\<close>. The accumulator is
  \<open>(bestDistance, bestIndex, supportPoint)\<close>, with \<open>None\<close> for the initial \<open>-1\<close> of
  \<open>bestIndex\<close> and for the unassigned \<open>supportPoint\<close>; the result adds \<open>hasSupport\<close>.
\<close>

fun axisLoop ::
  "nat \<Rightarrow> Body \<Rightarrow> Body \<Rightarrow> real \<times> nat option \<times> Vector2 option
     \<Rightarrow> bool \<times> real \<times> nat option \<times> Vector2 option" where
  "axisLoop 0 rect otherRect (bestDistance, bestIndex, supportPoint) =
     (True, bestDistance, bestIndex, supportPoint)"
| "axisLoop (Suc i) rect otherRect (bestDistance, bestIndex, supportPoint) =
     (let n = faceNormals rect ! i;
          dir = scaleVec2 n (- 1);
          ptOnEdge = vertices rect ! i
      in case supportLoop 4 (vertices otherRect) ptOnEdge dir (None, - 1000000000) of
           (None, tmpSupportPointDist) \<Rightarrow> (False, bestDistance, bestIndex, supportPoint)
         | (Some tmpSupportPoint, tmpSupportPointDist) \<Rightarrow>
             if tmpSupportPointDist < bestDistance
             then axisLoop i rect otherRect (tmpSupportPointDist, Some i, Some tmpSupportPoint)
             else axisLoop i rect otherRect (bestDistance, bestIndex, supportPoint))"

text \<open>
  The first iteration reads \<open>rect.faceNormals[3]\<close>, \<open>rect.vertices[3]\<close> and
  \<open>otherRect.vertices[3]\<close> and throws when one of them is missing; with four elements in
  each array no read of the loops is out of range. When every face has a support point
  but none is nearer than the initial \<open>bestDistance = 1e9\<close>, \<open>bestIndex\<close> is still \<open>-1\<close>
  and scaling \<open>rect.faceNormals[-1]\<close> throws.
\<close>

definition findAxisLeastPenetration ::
  "Body \<Rightarrow> Body \<Rightarrow> CollisionDetails \<Rightarrow> error + (bool \<times> CollisionDetails)" where
  "findAxisLeastPenetration rect otherRect collisionInfo =
     (if length (faceNormals rect) < 4 \<or> length (vertices rect) < 4
         \<or> length (vertices otherRect) < 4 then Inl TypeError
      else case axisLoop 4 rect otherRect (1000000000, None, None) of
             (False, _) \<Rightarrow> Inr (False, collisionInfo)
           | (True, bestDistance, Some bestIndex, Some supportPoint) \<Rightarrow>
               Inr (True, setCollisionInfo collisionInfo bestDistance (faceNormals rect ! bestIndex)
                      (addVec2 supportPoint (scaleVec2 (faceNormals rect ! bestIndex) bestDistance)))
           | (True, _) \<Rightarrow> Inl TypeError)"

text \<open>
  The face loop of the rectangle against circle test, over i = 3, 2, 1, 0, with its
  \<open>break\<close>. The accumulator is \<open>(inside, bestDistance, nearestEdge)\<close>.
\<close>

fun faceLoop :: "nat \<Rightarrow> Body \<Rightarrow> Vector2 \<Rightarrow> bool \<times> real \<times> nat \<Rightarrow> bool \<times> real \<times> nat" where
  "faceLoop 0 c1 circ2Pos acc = acc"
| "faceLoop (Suc i) c1 circ2Pos (inside, bestDistance, nearestEdge) =
     (let v = subtractVec2 circ2Pos (vertices c1 ! i);
          projection = dotProduct v (faceNormals c1 ! i)
      in if projection > 0 then (False, projection, i)
         else if projection > bestDistance then faceLoop i c1 circ2Pos (inside, projection, i)
         else faceLoop i c1 circ2Pos (inside, bestDistance, nearestEdge))"

text \<open>
  The rectangle against circle case of \<open>testCollision\<close>, \<open>c1\<close> the rectangle and \<open>c2\<close>
  the circle. The first iteration of the face loop reads index 3 of the rectangle's
  vertices and face normals.
\<close>

definition testRectCircle ::
  "Body \<Rightarrow> Body \<Rightarrow> CollisionDetails \<Rightarrow> error + (bool \<times> CollisionDetails)" where
  "testRectCircle c1 c2 collisionInfo =
     (if length (vertices c1) < 4 \<or> length (faceNormals c1) < 4 then Inl TypeError
      else
        let circ2Pos = center c2 in
        case faceLoop 4 c1 circ2Pos (True, - 1000000000, 0) of
          (inside, bestDistance, nearestEdge) \<Rightarrow>
            if inside then
              Inr (True, setCollisionInfo collisionInfo (bounds c2 - bestDistance)
                     (faceNormals c1 ! nearestEdge)
                     (subtractVec2 circ2Pos (scaleVec2 (faceNormals c1 ! nearestEdge) (bounds c2))))
            else
              let v1 = subtractVec2 circ2Pos (vertices c1 ! nearestEdge);
                  v2 = subtractVec2 (vertices c1 ! ((nearestEdge + 1) mod 4)) (vertices c1 ! nearestEdge);
                  dotp = dotProduct v1 v2
              in if dotp < 0 then
                   (let dis = lengthVec2 v1
                    in if dis > bounds c2 then Inr (False, collisionInfo)
                       else let normal = normalizeVec2 v1
                            in Inr (True, setCollisionInfo collisionInfo (bounds c2 - dis) normal
                                     (addVec2 circ2Pos (scaleVec2 normal (- bounds c2)))))
                 else
                   let v1 = subtractVec2 circ2Pos (vertices c1 ! ((nearestEdge + 1) mod 4));
                       v2 = scaleVec2 v2 (- 1);
                       dotp = dotProduct v1 v2
                   in if dotp < 0 then
                        (let dis = lengthVec2 v1
                         in if dis > bounds c2 then Inr (False, collisionInfo)
                            else let normal = normalizeVec2 v1
                                 in Inr (True, setCollisionInfo collisionInfo (bounds c2 - dis) normal
                                          (addVec2 circ2Pos (scaleVec2 normal (- bounds c2)))))
                      else if bestDistance < bounds c2 then
                        Inr (True, setCollisionInfo collisionInfo (bounds c2 - bestDistance)
                               (faceNormals c1 ! nearestEdge)
                               (subtractVec2 circ2Pos
                                  (scaleVec2 (faceNormals c1 ! nearestEdge) (bounds c2))))
                      else Inr (False, collisionInfo))"

text \<open>
  \<open>testCollision(world, c1, c2, collisionInfo)\<close>; the world is not used. The result is
  the returned boolean and the collision details as the call leaves them.
\<close>

definition testCollision ::
  "Body \<Rightarrow> Body \<Rightarrow> CollisionDetails \<Rightarrow> error + (bool \<times> CollisionDetails)" where
  "testCollision c1 c2 collisionInfo =
     (if mass c1 = 0 \<and> mass c2 = 0 then Inr (False, collisionInfo)
      else if btype c1 = CIRCLE \<and> btype c2 = CIRCLE then
        (let vFrom1to2 = subtractVec2 (center c2) (center c1);
             rSum = bounds c1 + bounds c2;
             dist = lengthVec2 vFrom1to2
         in if dist \<le> sqrt (rSum * rSum) then
              (let normalFrom2to1 = normalizeVec2 (scaleVec2 vFrom1to2 (- 1));
                   radiusC2 = scaleVec2 normalFrom2to1 (bounds c2)
               in Inr (True, setCollisionInfo collisionInfo (rSum - dist) (normalizeVec2 vFrom1to2)
                        (addVec2 (center c2) radiusC2)))
            else Inr (False, collisionInfo))
      else if btype c1 = RECTANGLE \<and> btype c2 = RECTANGLE then
        (case findAxisLeastPenetration c1 c2 EmptyCollision of
           Inl e \<Rightarrow> Inl e
         | Inr (False, _) \<Rightarrow> Inr (False, collisionInfo)
         | Inr (True, collisionInfoR1) \<Rightarrow>
            (case findAxisLeastPenetration c2 c1 EmptyCollision of
               Inl e \<Rightarrow> Inl e
             | Inr (False, _) \<Rightarrow> Inr (False, collisionInfo)
             | Inr (True, collisionInfoR2) \<Rightarrow>
                 if cdepth collisionInfoR1 < cdepth collisionInfoR2 then
                   Inr (True, setCollisionInfo collisionInfo (cdepth collisionInfoR1)
                          (normal collisionInfoR1)
                          (subtractVec2 (start collisionInfoR1)
                             (scaleVec2 (normal collisionInfoR1) (cdepth collisionInfoR1))))
                 else
                   Inr (True, setCollisionInfo collisionInfo (cdepth collisionInfoR2)
                          (scaleVec2 (normal collisionInfoR2) (- 1)) (start collisionInfoR2))))
      else if btype c1 = CIRCLE \<and> btype c2 = RECTANGLE then testRectCircle c2 c1 collisionInfo
      else testRectCircle c1 c2 collisionInfo)"

section \<open>Collision resolution\<close>

text \<open>
  The local constants of \<open>resolveCollision\<close> that follow its position correction, as
  functions of the two bodies (as the correction leaves them) and of the collision
  details. The source computes \<open>tangent\<close> and \<open>jT\<close> after it has applied the normal
  impulse; they read only \<open>mass\<close> and \<open>inertia\<close> of the bodies and the constants computed
  before, which the normal impulse does not write.
\<close>

definition contact_p :: "Body \<Rightarrow> Body \<Rightarrow> CollisionDetails \<Rightarrow> Vector2" where
  "contact_p s1 s2 collisionInfo =
     (let start' = scaleVec2 (start collisionInfo) (mass s2 / (mass s1 + mass s2));
          end' = scaleVec2 (cend collisionInfo) (mass s1 / (mass s1 + mass s2))
      in addVec2 start' end')"

definition contact_r1 :: "Body \<Rightarrow> Body \<Rightarrow> CollisionDetails \<Rightarrow> Vector2" where
  "contact_r1 s1 s2 collisionInfo = subtractVec2 (contact_p s1 s2 collisionInfo) (center s1)"

definition contact_r2 :: "Body \<Rightarrow> Body \<Rightarrow> CollisionDetails \<Rightarrow> Vector2" where
  "contact_r2 s1 s2 collisionInfo = subtractVec2 (contact_p s1 s2 collisionInfo) (center s2)"

definition relativeVelocity :: "Body \<Rightarrow> Body \<Rightarrow> CollisionDetails \<Rightarrow> Vector2" where
  "relativeVelocity s1 s2 collisionInfo =
     (let r1 = contact_r1 s1 s2 collisionInfo;
          r2 = contact_r2 s1 s2 collisionInfo;
          v1 = addVec2 (velocity s1)
                 (newVec2 (- 1 * angularVelocity s1 * vy r1) (angularVelocity s1 * vx r1));
          v2 = addVec2 (velocity s2)
                 (newVec2 (- 1 * angularVelocity s2 * vy r2) (angularVelocity s2 * vx r2))
      in subtractVec2 v2 v1)"

definition rVelocityInNormal :: "Body \<Rightarrow> Body \<Rightarrow> CollisionDetails \<Rightarrow> real" where
  "rVelocityInNormal s1 s2 collisionInfo =
     dotProduct (relativeVelocity s1 s2 collisionInfo) (normal collisionInfo)"

definition impulse_jN :: "Body \<Rightarrow> Body \<Rightarrow> CollisionDetails \<Rightarrow> real" where
  "impulse_jN s1 s2 collisionInfo =
     (let n = normal collisionInfo;
          newRestituion = min (restitution s1) (restitution s2);
          R1crossN = crossProduct (contact_r1 s1 s2 collisionInfo) n;
          R2crossN = crossProduct (contact_r2 s1 s2 collisionInfo) n
      in (- (1 + newRestituion) * rVelocityInNormal s1 s2 collisionInfo)
         / (mass s1 + mass s2 + R1crossN * R1crossN * inertia s1 + R2crossN * R2crossN * inertia s2))"

definition tangent :: "Body \<Rightarrow> Body \<Rightarrow> CollisionDetails \<Rightarrow> Vector2" where
  "tangent s1 s2 collisionInfo =
     (let n = normal collisionInfo;
          relVel = relativeVelocity s1 s2 collisionInfo
      in scaleVec2 (normalizeVec2 (subtractVec2 relVel (scaleVec2 n (dotProduct relVel n)))) (- 1))"

text \<open>The friction impulse scalar \<open>jT\<close> as first computed, and after \<open>if (jT > jN) jT = jN\<close>.\<close>

definition impulse_jT_computed :: "Body \<Rightarrow> Body \<Rightarrow> CollisionDetails \<Rightarrow> real" where
  "impulse_jT_computed s1 s2 collisionInfo =
     (let t = tangent s1 s2 collisionInfo;
          newRestituion = min (restitution s1) (restitution s2);
          newFriction = min (friction s1) (friction s2);
          R1crossT = crossProduct (contact_r1 s1 s2 collisionInfo) t;
          R2crossT = crossProduct (contact_r2 s1 s2 collisionInfo) t
      in (- (1 + newRestituion) * dotProduct (relativeVelocity s1 s2 collisionInfo) t * newFriction)
         / (mass s1 + mass s2 + R1crossT * R1crossT * inertia s1 + R2crossT * R2crossT * inertia s2))"

definition impulse_jT :: "Body \<Rightarrow> Body \<Rightarrow> CollisionDetails \<Rightarrow> real" where
  "impulse_jT s1 s2 collisionInfo =
     (let jT = impulse_jT_computed s1 s2 collisionInfo;
          jN = impulse_jN s1 s2 collisionInfo
      in if jT > jN then jN else jT)"

text \<open>
  The position correction: \<open>correctionAmount\<close>, and the two calls of \<open>_moveBody\<close>, which
  leave \<open>force\<close> at its default \<open>false\<close>.
\<close>

definition correctionAmount :: "Body \<Rightarrow> Body \<Rightarrow> CollisionDetails \<Rightarrow> Vector2" where
  "correctionAmount s1 s2 collisionInfo =
     (let num = cdepth collisionInfo / (mass s1 + mass s2) * 0.8
      in scaleVec2 (normal collisionInfo) num)"

definition correctPositions :: "ref \<Rightarrow> ref \<Rightarrow> Vector2 \<Rightarrow> unit M" where
  "correctPositions s1 s2 correction =
     bind (onBody s1 (\<lambda>b. moveBody' b (scaleVec2 correction (- mass b)) False)) (\<lambda>_.
           onBody s2 (\<lambda>b. moveBody' b (scaleVec2 correction (mass b)) False))"

text \<open>The rest of \<open>resolveCollision\<close>, from the contact point on.\<close>

definition applyImpulses :: "World \<Rightarrow> ref \<Rightarrow> ref \<Rightarrow> CollisionDetails \<Rightarrow> bool M" where
  "applyImpulses world s1 s2 collisionInfo h2 =
     (let a = h2 s1; b = h2 s2;
          n = normal collisionInfo;
          r1 = contact_r1 a b collisionInfo;
          r2 = contact_r2 a b collisionInfo
      in if rVelocityInNormal a b collisionInfo > 0 then (Inr False, h2)
         else
           let R1crossN = crossProduct r1 n;
               R2crossN = crossProduct r2 n;
               jN = impulse_jN a b collisionInfo;
               impulse = scaleVec2 n jN;
               t = tangent a b collisionInfo;
               R1crossT = crossProduct r1 t;
               R2crossT = crossProduct r2 t;
               jT = impulse_jT a b collisionInfo;
               impulseT = scaleVec2 t jT
           in
           bind (update s1 (\<lambda>s. if \<not> static s then
                   s\<lparr>velocity := subtractVec2 (velocity s) (scaleVec2 impulse (mass s)),
                     angularVelocity := angularVelocity s - R1crossN * jN * inertia s\<rparr>
                 else s)) (\<lambda>_.
           bind (update s2 (\<lambda>s. if \<not> static s then
                   s\<lparr>velocity := addVec2 (velocity s) (scaleVec2 impulse (mass s)),
                     angularVelocity := angularVelocity s + R2crossN * jN * inertia s\<rparr>
                 else s)) (\<lambda>_.
           bind (update s1 (\<lambda>s. if \<not> static s then
                   (let v = subtractVec2 (velocity s) (scaleVec2 impulseT (mass s));
                        w = angularVelocity s - R1crossT * jT * inertia s;
                        v' = newVec2 (vx v * damp world) (vy v * damp world)
                    in s\<lparr>velocity := (if pinned s then newVec2 0 0 else v'),
                         angularVelocity := w * angularDamp world\<rparr>)
                 else s)) (\<lambda>_.
           bind (update s2 (\<lambda>s. if \<not> static s then
                   (let v = addVec2 (velocity s) (scaleVec2 impulseT (mass s));
                        w = angularVelocity s + R2crossT * jT * inertia s;
                        v' = newVec2 (vx v * damp world) (vy v * damp world)
                    in s\<lparr>velocity := (if pinned s then newVec2 0 0 else v'),
                         angularVelocity := w * angularDamp world\<rparr>)
                 else s)) (\<lambda>_.
           ret True)))) h2)"

definition resolveCollision :: "World \<Rightarrow> ref \<Rightarrow> ref \<Rightarrow> CollisionDetails \<Rightarrow> bool M" where
  "resolveCollision world s1 s2 collisionInfo h =
     (if mass (h s1) = 0 \<and> mass (h s2) = 0 then (Inr False, h)
      else
        let correction = correctionAmount (h s1) (h s2) collisionInfo
        in if vx correction = 0 \<and> vy correction = 0 then (Inr False, h)
           else bind (correctPositions s1 s2 correction)
                     (\<lambda>_. applyImpulses world s1 s2 collisionInfo) h)"

section \<open>The step of the world\<close>

text \<open>The body of the first loop of \<open>worldStep\<close>: position and rotation of one dynamic body.\<close>

definition integrateBody :: "real \<Rightarrow> Body \<Rightarrow> (error + unit) \<times> Body" where
  "integrateBody fps body =
     (let b1 = body\<lparr>velocity := addVec2 (velocity body) (scaleVec2 (acceleration body) (1 / fps))\<rparr>
      in case moveBody' b1 (scaleVec2 (velocity b1) (1 / fps)) False of
           (Inl e, b2) \<Rightarrow> (Inl e, b2)
         | (Inr _, b2) \<Rightarrow>
             let b3 = b2\<lparr>angularVelocity := angularVelocity b2 + angularAcceleration b2 * 1 / fps\<rparr>
             in rotateBody b3 (angularVelocity b3 * 1 / fps))"

text \<open>
  The body of the joint loop for one joint of one dynamic body; \<open>all\<close> is the list of
  enabled bodies taken at the start of the step.
\<close>

definition applyJoint :: "real \<Rightarrow> ref list \<Rightarrow> ref \<Rightarrow> Joint \<Rightarrow> unit M" where
  "applyJoint fps all body joint h =
     (let otherId = (if bodyA joint = body_id (h body) then bodyB joint else bodyA joint)
      in case find (\<lambda>b. body_id (h b) = otherId) all of
           None \<Rightarrow> (Inr (), h)
         | Some other \<Rightarrow>
             let vec = subtractVec2 (center (h other)) (center (h body));
                 distance = lengthVec2 vec;
                 diff = distance - Joint.distance joint
             in if diff \<noteq> 0 then
                  (let vec' =
                     (if diff > 0
                      then scaleVec2 vec ((1 / distance) * diff * (1 - elasticity joint)
                                           * (if mass (h other) = 0 then 1 else 0.5))
                      else scaleVec2 vec ((1 / distance) * diff * rigidity joint
                                           * (if mass (h other) = 0 then 1 else 0.5)))
                   in bind (onBody body (\<lambda>b. moveBody' b vec' False)) (\<lambda>_.
                      update body (\<lambda>b. b\<lparr>velocity := addVec2 (velocity b) (scaleVec2 vec' fps)\<rparr>)) h)
                else (Inr (), h))"

definition applyJoints :: "real \<Rightarrow> World \<Rightarrow> ref list \<Rightarrow> ref \<Rightarrow> unit M" where
  "applyJoints fps world all body h =
     forEach (filter (\<lambda>j. bodyA j = body_id (h body) \<or> bodyB j = body_id (h body)) (joints world))
             (applyJoint fps all body) h"

text \<open>
  The body of the innermost collision loop for the pair \<open>(bodyI, bodyJ)\<close>. The
  accumulator is the flag \<open>collision\<close> of the current pass and the list \<open>collisions\<close>
  that the step returns.
\<close>

definition collidePair ::
  "World \<Rightarrow> ref \<Rightarrow> ref \<Rightarrow> bool \<times> Collision list \<Rightarrow> (bool \<times> Collision list) M" where
  "collidePair world bodyI bodyJ acc h =
     (if boundTest (h bodyI) (h bodyJ) then
        (case testCollision (h bodyI) (h bodyJ) EmptyCollision of
           Inl e \<Rightarrow> (Inl e, h)
         | Inr (False, _) \<Rightarrow> (Inr acc, h)
         | Inr (True, collisionInfo) \<Rightarrow>
             if permeability (h bodyJ) > 0 then
               (let p = permeability (h bodyJ)
                in (Inr acc,
                    h(bodyI := (h bodyI)
                        \<lparr>velocity := newVec2 (vx (velocity (h bodyI)) * (1 - p))
                                             (vy (velocity (h bodyI)) * (1 - p)),
                         angularVelocity := angularVelocity (h bodyI) * (1 - p)\<rparr>)))
             else
               let collisionInfo' =
                     (if dotProduct (normal collisionInfo)
                           (subtractVec2 (center (h bodyJ)) (center (h bodyI))) < 0
                      then \<lparr>cdepth = cdepth collisionInfo,
                            normal = scaleVec2 (normal collisionInfo) (- 1),
                            start = cend collisionInfo,
                            cend = start collisionInfo\<rparr>
                      else collisionInfo)
               in bind (resolveCollision world bodyI bodyJ collisionInfo') (\<lambda>resolved h'.
                    if resolved then
                      (Inr (True, snd acc @ [\<lparr>bodyAId = body_id (h' bodyI),
                                              bodyBId = body_id (h' bodyJ),
                                              depth = cdepth collisionInfo'\<rparr>]), h')
                    else (Inr acc, h')) h)
      else (Inr acc, h))"

text \<open>
  One pass of the collision loops. \<open>for (let i = dynamicBodies.length; i--;)\<close> visits
  i from the last index down to 0, and \<open>for (let j = all.length; j-- > i;)\<close> visits j from
  the last index of \<open>all\<close> down to i, where the pair is skipped.
\<close>

definition collisionPass :: "World \<Rightarrow> Collision list \<Rightarrow> (bool \<times> Collision list) M" where
  "collisionPass world collisions =
     (let all = enabledBodies world
      in foldM (\<lambda>i. foldM (\<lambda>j acc. if i = j then ret acc
                                     else collidePair world (dynamicBodies world ! i) (all ! j) acc)
                           (rev [i ..< length all]))
               (rev [0 ..< length (dynamicBodies world)])
               (False, collisions))"

text \<open>\<open>for (let k = 9; k--;) { ...; if (!collision) break; }\<close>, started with \<open>k\<close> passes left.\<close>

fun resolveLoop :: "nat \<Rightarrow> World \<Rightarrow> Collision list \<Rightarrow> Collision list M" where
  "resolveLoop 0 world collisions = ret collisions"
| "resolveLoop (Suc k) world collisions =
     bind (collisionPass world collisions) (\<lambda>(collision, collisions').
       if \<not> collision then ret collisions' else resolveLoop k world collisions')"

text \<open>The body of the last loop of \<open>worldStep\<close>: the resting time of one body.\<close>

definition updateResting :: "real \<Rightarrow> Body \<Rightarrow> Body" where
  "updateResting fps body =
     (if mass body > 0 then
        (let b0 = body\<lparr>restingTime := restingTime body + 1 / fps\<rparr>;
             b1 = (if \<bar>vx (center b0) - vx (averageCenter b0)\<bar> > 1
                   then b0\<lparr>averageCenter := newVec2 (vx (center b0)) (vy (averageCenter b0)),
                           restingTime := 0\<rparr>
                   else b0);
             b2 = (if \<bar>vy (center b1) - vy (averageCenter b1)\<bar> > 1
                   then b1\<lparr>averageCenter := newVec2 (vx (averageCenter b1)) (vy (center b1)),
                           restingTime := 0\<rparr>
                   else b1)
         in if \<bar>angle b2 - averageAngle b2\<bar> \<ge> 0.1
            then b2\<lparr>averageAngle := angle b2, restingTime := 0\<rparr>
            else b2)
      else body\<lparr>averageCenter := newVec2 (vx (center body)) (vy (center body)),
                averageAngle := angle body\<rparr>)"

text \<open>
  The four loops of \<open>worldStep\<close>, in the order of the source: integration, joints,
  collision passes, resting times. The list \<open>all\<close> of enabled bodies is taken once, at
  the start; the step does not change the collections of the world.
\<close>

definition integratePhase :: "real \<Rightarrow> World \<Rightarrow> unit M" where
  "integratePhase fps world =
     forEach (dynamicBodies world) (\<lambda>body. onBody body (integrateBody fps))"

definition jointPhase :: "real \<Rightarrow> World \<Rightarrow> unit M" where
  "jointPhase fps world =
     forEach (dynamicBodies world) (applyJoints fps world (enabledBodies world))"

definition restingPhase :: "real \<Rightarrow> World \<Rightarrow> unit M" where
  "restingPhase fps world =
     forEach (allBodies world) (\<lambda>body. update body (updateResting fps))"

definition worldStep :: "real \<Rightarrow> World \<Rightarrow> Collision list M" where
  "worldStep fps world =
     bind (integratePhase fps world) (\<lambda>_.
     bind (jointPhase fps world) (\<lambda>_.
     bind (resolveLoop 9 world []) (\<lambda>collisions.
     bind (restingPhase fps world) (\<lambda>_.
     ret collisions))))"

text \<open>
  Counting the passes: \<open>passCount k\<close> is the number of passes that the loop runs when it is
  started with \<open>k\<close> passes left, and \<open>passes n\<close> runs \<open>n\<close> passes one after the other,
  whatever they find (with the flag \<open>True\<close> for no pass at all).
\<close>

fun passCount :: "nat \<Rightarrow> World \<Rightarrow> Collision list \<Rightarrow> heap \<Rightarrow> nat" where
  "passCount 0 world collisions h = 0"
| "passCount (Suc k) world collisions h =
     (case collisionPass world collisions h of
        (Inr (True, collisions'), h') \<Rightarrow> Suc (passCount k world collisions' h')
      | _ \<Rightarrow> Suc 0)"

fun passes :: "nat \<Rightarrow> World \<Rightarrow> Collision list \<Rightarrow> (bool \<times> Collision list) M" where
  "passes 0 world collisions = ret (True, collisions)"
| "passes (Suc n) world collisions =
     bind (passes n world collisions) (\<lambda>(collision, collisions'). collisionPass world collisions')"

text \<open>
  How the accumulator of a pass changes: collisions are only appended, and the flag is set
  exactly when one is.
\<close>

definition grows :: "bool \<times> Collision list \<Rightarrow> bool \<times> Collision list \<Rightarrow> bool" where
  "grows acc acc' \<longleftrightarrow>
     length (snd acc) \<le> length (snd acc') \<and>
     (fst acc' = (fst acc \<or> length (snd acc) < length (snd acc')))"

text \<open>What the loop returns after its last pass: the collisions, without the flag.\<close>

definition finish ::
  "(error + bool \<times> Collision list) \<times> heap \<Rightarrow> (error + Collision list) \<times> heap" where
  "finish res = (case res of (Inl e, h') \<Rightarrow> (Inl e, h') | (Inr (c, cs'), h') \<Rightarrow> (Inr cs', h'))"

text \<open>The step up to its last loop: the first three loops, with the collisions found.\<close>

definition beforeResting :: "real \<Rightarrow> World \<Rightarrow> Collision list M" where
  "beforeResting fps world =
     bind (integratePhase fps world) (\<lambda>_.
     bind (jointPhase fps world) (\<lambda>_.
     resolveLoop 9 world []))"

section \<open>Joints and removal\<close>


text \<open>\<open>list.findIndex(p)\<close>, with \<open>None\<close> for \<open>-1\<close>, and \<open>list.splice(index, 1)\<close>.\<close>

fun findIndex :: "('a \<Rightarrow> bool) \<Rightarrow> 'a list \<Rightarrow> nat option" where
  "findIndex p [] = None"
| "findIndex p (x # xs) = (if p x then Some 0 else map_option Suc (findIndex p xs))"

definition splice1 :: "nat \<Rightarrow> 'a list \<Rightarrow> 'a list" where
  "splice1 i xs = take i xs @ drop (Suc i) xs"

definition removeBody :: "World \<Rightarrow> heap \<Rightarrow> ref \<Rightarrow> World" where
  "removeBody world h body =
     (if static (h body) then
        (case findIndex (\<lambda>b. body_id (h b) = body_id (h body)) (staticBodies world) of
           Some i \<Rightarrow> world\<lparr>staticBodies := splice1 i (staticBodies world)\<rparr>
         | None \<Rightarrow> world)
      else
        (case findIndex (\<lambda>b. body_id (h b) = body_id (h body)) (dynamicBodies world) of
           Some i \<Rightarrow> world\<lparr>dynamicBodies := splice1 i (dynamicBodies world)\<rparr>
         | None \<Rightarrow> world))"

definition disableBody :: "World \<Rightarrow> ref \<Rightarrow> World" where
  "disableBody world body =
     (let w1 = (if body \<in> set (dynamicBodies world)
                then world\<lparr>dynamicBodies := remove1 body (dynamicBodies world)\<rparr> else world);
          w2 = (if body \<in> set (staticBodies w1)
                then w1\<lparr>staticBodies := remove1 body (staticBodies w1)\<rparr> else w1)
      in if body \<notin> set (disabledBodies w2)
         then w2\<lparr>disabledBodies := disabledBodies w2 @ [body]\<rparr> else w2)"

definition enableBody :: "World \<Rightarrow> heap \<Rightarrow> ref \<Rightarrow> World" where
  "enableBody world h body =
     (let w1 = (if \<not> static (h body) \<and> body \<notin> set (dynamicBodies world)
                then world\<lparr>dynamicBodies := dynamicBodies world @ [body]\<rparr> else world);
          w2 = (if static (h body) \<and> body \<notin> set (staticBodies w1)
                then w1\<lparr>staticBodies := staticBodies w1 @ [body]\<rparr> else w1)
      in if body \<in> set (disabledBodies w2)
         then w2\<lparr>disabledBodies := remove1 body (disabledBodies w2)\<rparr> else w2)"

section \<open>Creating worlds and bodies\<close>

text \<open>\<open>createWorld(gravity?)\<close>; a missing argument is \<open>None\<close>.\<close>

definition createWorld :: "Vector2 option \<Rightarrow> World" where
  "createWorld g =
     \<lparr>dynamicBodies = [], staticBodies = [], disabledBodies = [],
      gravity = (case g of Some v \<Rightarrow> v | None \<Rightarrow> newVec2 0 100),
      angularDamp = 0.98, damp = 0.98, nextId = 1, joints = []\<rparr>"

definition calculateInertia :: "ShapeType \<Rightarrow> real \<Rightarrow> real \<Rightarrow> real \<Rightarrow> real \<Rightarrow> real" where
  "calculateInertia t m bounds' width' height' =
     (if t = RECTANGLE
      then (if m > 0 then 1 / (m * (width' ^ 2 + height' ^ 2) / 12) else 0)
      else (if m > 0 then (m * bounds' ^ 2) / 12 else 0))"

text \<open>
  \<open>createRigidBody\<close> returns the new body and the world with its id counter advanced;
  the argument \<open>m\<close> is the mass, of which the body stores the inverse.
  \<open>Number.MAX_SAFE_INTEGER\<close> is \<open>2^53 - 1\<close>.
\<close>

definition createRigidBody ::
  "World \<Rightarrow> Vector2 \<Rightarrow> real \<Rightarrow> real \<Rightarrow> real \<Rightarrow> ShapeType \<Rightarrow> real \<Rightarrow> real \<Rightarrow> real \<Rightarrow> Body \<times> World" where
  "createRigidBody world c m friction' restitution' t bounds' width' height' =
     (let body =
        \<lparr>body_id = nextId world,
         btype = t,
         center = c,
         averageCenter = newVec2 (vx c) (vy c),
         friction = friction',
         restitution = restitution',
         mass = (if m \<noteq> 0 then 1 / m else 0),
         velocity = newVec2 0 0,
         acceleration = (if m \<noteq> 0 then gravity world else newVec2 0 0),
         angle = 0,
         averageAngle = 0,
         angularVelocity = 0,
         angularAcceleration = 0,
         bounds = bounds',
         boundingBox = newVec2 0 0,
         width = width',
         height = height',
         inertia = calculateInertia t m bounds' width' height',
         faceNormals = [],
         vertices = [newVec2 (vx c - width' / 2) (vy c - height' / 2),
                     newVec2 (vx c + width' / 2) (vy c - height' / 2),
                     newVec2 (vx c + width' / 2) (vy c + height' / 2),
                     newVec2 (vx c - width' / 2) (vy c + height' / 2)],
         pinned = False,
         restingTime = (if m = 0 then 9007199254740991 else 0),
         static = (m = 0),
         permeability = 0\<rparr>;
          body' = calcBoundingBox body
      in (if t = RECTANGLE then computeRectNormals body' else body',
          world\<lparr>nextId := nextId world + 1\<rparr>))"

definition createCircle ::
  "World \<Rightarrow> Vector2 \<Rightarrow> real \<Rightarrow> real \<Rightarrow> real \<Rightarrow> real \<Rightarrow> Body \<times> World" where
  "createCircle world c radius m friction' restitution' =
     createRigidBody world (newVec2 (of_int \<lfloor>vx c\<rfloor>) (of_int \<lfloor>vy c\<rfloor>)) m friction' restitution'
       CIRCLE (of_int \<lfloor>radius\<rfloor>) 0 0"

definition createRectangle ::
  "World \<Rightarrow> Vector2 \<Rightarrow> real \<Rightarrow> real \<Rightarrow> real \<Rightarrow> real \<Rightarrow> real \<Rightarrow> Body \<times> World" where
  "createRectangle world c width' height' m friction' restitution' =
     (let w = of_int \<lfloor>width'\<rfloor>; h = of_int \<lfloor>height'\<rfloor>
      in createRigidBody world (newVec2 (of_int \<lfloor>vx c\<rfloor>) (of_int \<lfloor>vy c\<rfloor>)) m friction' restitution'
           RECTANGLE (sqrt (w ^ 2 + h ^ 2) / 2) w h)"

text \<open>\<open>addBody(world, body)\<close>, for a body held in the store.\<close>

definition addBody :: "World \<Rightarrow> heap \<Rightarrow> ref \<Rightarrow> World" where
  "addBody world h body =
     (if static (h body) then world\<lparr>staticBodies := staticBodies world @ [body]\<rparr>
      else world\<lparr>dynamicBodies := dynamicBodies world @ [body]\<rparr>)"

text \<open>
  \<open>allowPinnedRotation(world, id, mass)\<close>: the first static body with the id becomes a
  pinned dynamic body. The argument is stored in \<open>mass\<close> as it is.
\<close>

definition allowPinnedRotation :: "World \<Rightarrow> heap \<Rightarrow> nat \<Rightarrow> real \<Rightarrow> World \<times> heap" where
  "allowPinnedRotation world h i m =
     (case find (\<lambda>b. body_id (h b) = i) (staticBodies world) of
        None \<Rightarrow> (world, h)
      | Some body \<Rightarrow>
          (world\<lparr>staticBodies := remove1 body (staticBodies world),
                 dynamicBodies := dynamicBodies world @ [body]\<rparr>,
           h(body := (h body)
               \<lparr>mass := m,
                inertia := calculateInertia (btype (h body)) m (bounds (h body))
                             (width (h body)) (height (h body)),
                pinned := True,
                static := False\<rparr>)))"

section \<open>An example scene\<close>

text \<open>
  Three circles of radius 10 made with \<open>createCircle\<close> in one world: a dynamic one at
  (0, 0), a static one at (15, 0), which overlaps it, and a dynamic one at (100, 0).
  They are held at the references 0, 1 and 2 and added to the world; the third is then
  disabled.
\<close>

definition sceneBodies :: "(Body \<times> Body \<times> Body) \<times> World" where
  "sceneBodies =
     (case createCircle (createWorld None) (newVec2 0 0) 10 1 0.2 0.5 of (a, w1) \<Rightarrow>
      case createCircle w1 (newVec2 15 0) 10 0 0.2 0.5 of (b, w2) \<Rightarrow>
      case createCircle w2 (newVec2 100 0) 10 1 0.2 0.5 of (c, w3) \<Rightarrow>
        ((a, b, c), w3))"

definition sceneHeap :: heap where
  "sceneHeap r =
     (case fst sceneBodies of (a, b, c) \<Rightarrow> if r = 0 then a else if r = 1 then b else c)"

definition sceneWorld :: World where
  "sceneWorld =
     disableBody (addBody (addBody (addBody (snd sceneBodies) sceneHeap 0) sceneHeap 1) sceneHeap 2) 2"

text \<open>
  A second scene: the first circle of the scene above, moved by (5, 0) with the exported
  \<open>moveBody\<close> after its creation, alone in a world.
\<close>

definition driftHeap :: heap where
  "driftHeap r = snd (moveBody (sceneHeap 0) (newVec2 5 0))"

definition driftWorld :: World where
  "driftWorld = addBody (createWorld None) driftHeap 0"

text \<open>
  Variants of the first scene. In \<open>pinnedScene\<close> the static circle has been made a pinned
  dynamic body of mass argument 1 by \<open>allowPinnedRotation\<close>. In \<open>permeableHeap\<close> the
  caller has set the \<open>permeability\<close> of the dynamic circle to 1/2. In the third scene both
  circles are dynamic, the first was created with friction -1, and the caller has given
  the second the velocity (0, 10). \<open>sceneContact\<close> is the contact that \<open>testCollision\<close>
  finds between the first two circles in all of them.
\<close>

definition pinnedScene :: "World \<times> heap" where
  "pinnedScene = allowPinnedRotation sceneWorld sceneHeap 2 1"

definition permeableHeap :: heap where
  "permeableHeap = sceneHeap(0 := (sceneHeap 0)\<lparr>permeability := 1 / 2\<rparr>)"




text \<open>The first scene with the dynamic circle moving towards the static one.\<close>

definition approachHeap :: heap where
  "approachHeap = sceneHeap(0 := (sceneHeap 0)\<lparr>velocity := newVec2 3 0\<rparr>)"

definition sceneContact :: CollisionDetails where
  "sceneContact = \<lparr>cdepth = 5, normal = newVec2 1 0, start = newVec2 5 0, cend = newVec2 10 0\<rparr>"

section \<open>Invariants of computations on the store\<close>

text \<open>
  A computation preserves a predicate on stores when every run from a store that
  satisfies it, ended normally or by an exception, leaves a store that satisfies it.
\<close>

definition preserves :: "(heap \<Rightarrow> bool) \<Rightarrow> 'a M \<Rightarrow> bool" where
  "preserves P m \<longleftrightarrow> (\<forall>h. P h \<longrightarrow> P (snd (m h)))"

text \<open>The pose of an immovable body: a center, an angle, and zero inverse mass.\<close>

definition staticPose :: "Vector2 \<Rightarrow> real \<Rightarrow> Body \<Rightarrow> bool" where
  "staticPose c a b \<longleftrightarrow> center b = c \<and> angle b = a \<and> mass b = 0"

section \<open>Unfolding rules and vector lemmas\<close>

lemmas vec_defs =
  subtractVec2_def addVec2_def scaleVec2_def lengthVec2_def dotProduct_def crossProduct_def
  normalizeVec2_def

lemmas create_defs =
  createCircle_def createRigidBody_def createWorld_def calcBoundingBox_def calculateInertia_def
  addBody_def disableBody_def

lemmas monad_defs = bind_def ret_def onBody_def update_def

lemmas impulse_defs =
  applyImpulses_def rVelocityInNormal_def relativeVelocity_def contact_r1_def contact_r2_def
  contact_p_def impulse_jN_def impulse_jT_def impulse_jT_computed_def tangent_def

lemmas resolve_defs = resolveCollision_def correctionAmount_def correctPositions_def moveBody'_def

lemmas pass_defs = collisionPass_def collidePair_def enabledBodies_def boundTest_def testCollision_def
  setCollisionInfo_def EmptyCollision_def

lemma lengthVec2_zero_iff: "lengthVec2 v = 0 \<longleftrightarrow> v = newVec2 0 0"
  by (cases v) (simp add: lengthVec2_def dotProduct_def sum_squares_eq_zero_iff)

lemma vec_zero_iff: "(vx v = 0 \<and> vy v = 0) = (v = newVec2 0 0)"
  by (cases v) simp

lemma lengthVec2_scale: "lengthVec2 (scaleVec2 v k) = \<bar>k\<bar> * lengthVec2 v"
proof -
  have "dotProduct (scaleVec2 v k) (scaleVec2 v k) = k\<^sup>2 * dotProduct v v"
    by (simp add: dotProduct_def scaleVec2_def power2_eq_square algebra_simps)
  then show ?thesis
    by (simp add: lengthVec2_def real_sqrt_mult)
qed

lemma lengthVec2_nonneg: "0 \<le> lengthVec2 v"
  by (simp add: lengthVec2_def dotProduct_def)

lemma lengthVec2_normalize: "v \<noteq> newVec2 0 0 \<Longrightarrow> lengthVec2 (normalizeVec2 v) = 1"
  using lengthVec2_nonneg [of v]
  by (simp add: normalizeVec2_def lengthVec2_scale lengthVec2_zero_iff)

lemma subtract_add_cancel: "subtractVec2 (addVec2 c v) c = v"
  by (cases v) (simp add: subtractVec2_def addVec2_def scaleVec2_def)

lemma subtract_eq_zero_iff: "subtractVec2 a b = newVec2 0 0 \<longleftrightarrow> a = b"
  by (cases a; cases b) (simp add: subtractVec2_def addVec2_def scaleVec2_def)

lemma scale_subtract_neg: "scaleVec2 (subtractVec2 a b) (- 1) = subtractVec2 b a"
  by (simp add: subtractVec2_def addVec2_def scaleVec2_def)

lemma lengthVec2_subtract_commute: "lengthVec2 (subtractVec2 a b) = lengthVec2 (subtractVec2 b a)"
  using lengthVec2_scale [of "subtractVec2 a b" "- 1"] by (simp add: scale_subtract_neg)


lemma sqrt_25: "sqrt 25 = 5"
  using real_sqrt_abs [of 5] by simp


lemma sqrt_225: "sqrt 225 = 15"
  using real_sqrt_abs [of 15] by simp

lemma sqrt_361: "sqrt 361 = 19"
  using real_sqrt_abs [of 19] by simp

section \<open>The example scenes, evaluated\<close>

lemma sceneWorld_eq:
  "sceneWorld =
     \<lparr>dynamicBodies = [0], staticBodies = [Suc 0], disabledBodies = [2],
      gravity = newVec2 0 100, angularDamp = 49 / 50, damp = 49 / 50,
      nextId = 4, joints = []\<rparr>"
  by (simp add: sceneWorld_def sceneHeap_def sceneBodies_def create_defs Let_def)

lemma sceneHeap_ids:
  "body_id (sceneHeap 0) = 1" "body_id (sceneHeap (Suc 0)) = 2" "body_id (sceneHeap 2) = 3"
  by (simp_all add: sceneHeap_def sceneBodies_def create_defs Let_def)

lemma sceneHeap_0:
  "sceneHeap 0 =
     \<lparr>body_id = 1, btype = CIRCLE, center = newVec2 0 0,
      averageCenter = newVec2 0 0, friction = 1 / 5, restitution = 1 / 2,
      mass = 1, velocity = newVec2 0 0, acceleration = newVec2 0 100,
      angle = 0, averageAngle = 0, angularVelocity = 0,
      angularAcceleration = 0, bounds = 10, boundingBox = newVec2 10 10,
      width = 0, height = 0, inertia = 25 / 3, faceNormals = [],
      vertices = [newVec2 0 0, newVec2 0 0, newVec2 0 0, newVec2 0 0],
      pinned = False, restingTime = 0, static = False, permeability = 0\<rparr>"
  by (simp add: sceneHeap_def sceneBodies_def create_defs Let_def)

lemma sceneHeap_1:
  "sceneHeap (Suc 0) =
     \<lparr>body_id = 2, btype = CIRCLE, center = newVec2 15 0,
      averageCenter = newVec2 15 0, friction = 1 / 5, restitution = 1 / 2,
      mass = 0, velocity = newVec2 0 0, acceleration = newVec2 0 0,
      angle = 0, averageAngle = 0, angularVelocity = 0,
      angularAcceleration = 0, bounds = 10, boundingBox = newVec2 10 10,
      width = 0, height = 0, inertia = 0, faceNormals = [],
      vertices = [newVec2 15 0, newVec2 15 0, newVec2 15 0, newVec2 15 0],
      pinned = False, restingTime = 9007199254740991, static = True,
      permeability = 0\<rparr>"
  by (simp add: sceneHeap_def sceneBodies_def create_defs Let_def)

lemma sceneHeap_2:
  "sceneHeap 2 = (sceneHeap 0)\<lparr>body_id := 3, center := newVec2 100 0, averageCenter := newVec2 100 0,
      vertices := [newVec2 100 0, newVec2 100 0, newVec2 100 0, newVec2 100 0]\<rparr>"
  by (simp add: sceneHeap_def sceneBodies_def create_defs Let_def)

lemma pinnedScene_eq:
  "pinnedScene =
     (sceneWorld\<lparr>staticBodies := [], dynamicBodies := [0, Suc 0]\<rparr>,
      sceneHeap(Suc 0 := (sceneHeap (Suc 0))\<lparr>mass := 1, inertia := 25 / 3, pinned := True, static := False\<rparr>))"
  by (simp add: pinnedScene_def allowPinnedRotation_def sceneWorld_eq sceneHeap_ids sceneHeap_1
      calculateInertia_def)




lemma permeableHeap_0: "permeableHeap 0 = (sceneHeap 0)\<lparr>permeability := 1 / 2\<rparr>"
  and permeableHeap_1: "permeableHeap (Suc 0) = sceneHeap (Suc 0)"
  by (simp_all add: permeableHeap_def)

lemma driftHeap_eq:
  "driftHeap r = (sceneHeap 0)\<lparr>center := newVec2 5 0\<rparr>"
  by (simp add: driftHeap_def moveBody_def moveBody'_def sceneHeap_0 vec_defs)

lemma driftWorld_eq:
  "driftWorld = (createWorld None)\<lparr>dynamicBodies := [0]\<rparr>"
  by (simp add: driftWorld_def addBody_def driftHeap_eq sceneHeap_0 createWorld_def)

lemma testCollision_scene:
  "testCollision (sceneHeap 0) (sceneHeap (Suc 0)) EmptyCollision = Inr (True, sceneContact)"
  by (simp add: sceneHeap_0 sceneHeap_1 testCollision_def vec_defs sqrt_225 setCollisionInfo_def
      EmptyCollision_def sceneContact_def Let_def)


lemma testCollision_permeable:
  "testCollision (permeableHeap 0) (permeableHeap (Suc 0)) EmptyCollision = Inr (True, sceneContact)"
  by (simp add: permeableHeap_0 permeableHeap_1 sceneHeap_0 sceneHeap_1 testCollision_def vec_defs
      sqrt_225 setCollisionInfo_def EmptyCollision_def sceneContact_def Let_def)

section \<open>Computations on the store\<close>

lemma bind_assoc: "bind (bind m f) g = bind m (\<lambda>a. bind (f a) g)"
  by (auto simp: bind_def fun_eq_iff split: prod.splits sum.splits)

lemma preservesI: "(\<And>h. P h \<Longrightarrow> P (snd (m h))) \<Longrightarrow> preserves P m"
  by (simp add: preserves_def)

lemma preservesD: "preserves P m \<Longrightarrow> P h \<Longrightarrow> P (snd (m h))"
  by (simp add: preserves_def)

lemma preserves_ret: "preserves P (ret a)"
  by (simp add: preserves_def ret_def)

lemma preserves_bind:
  assumes "preserves P m" and "\<And>a. preserves P (f a)"
  shows "preserves P (bind m f)"
proof (rule preservesI)
  fix h assume "P h"
  then have "P (snd (m h))" using assms(1) by (rule preservesD [rotated])
  then show "P (snd (bind m f h))"
    using assms(2) by (cases "m h"; cases "fst (m h)") (auto simp: bind_def dest: preservesD)
qed

lemma bind_preserved:
  assumes "preserves P m" and "\<And>a. preserves P (f a)" and "P h"
  shows "P (snd (bind m f h))"
  using preservesD [OF preserves_bind [of P m f] assms(3)] assms(1,2) by simp

lemma preserves_forEach:
  assumes "\<And>x. x \<in> set xs \<Longrightarrow> preserves P (f x)"
  shows "preserves P (forEach xs f)"
  using assms by (induction xs) (auto intro: preserves_ret preserves_bind)

lemma preserves_foldM:
  assumes "\<And>x acc. x \<in> set xs \<Longrightarrow> preserves P (f x acc)"
  shows "preserves P (foldM f xs acc)"
  using assms by (induction xs arbitrary: acc) (auto intro: preserves_ret preserves_bind)

lemma preserves_update:
  assumes "s \<noteq> r \<or> (\<forall>b. Q b \<longrightarrow> Q (f b))"
  shows "preserves (\<lambda>h. Q (h r)) (update s f)"
  using assms by (auto simp: preserves_def update_def)

lemma preserves_onBody:
  assumes "s \<noteq> r \<or> (\<forall>b. Q b \<longrightarrow> Q (snd (f b)))"
  shows "preserves (\<lambda>h. Q (h r)) (onBody s f)"
  using assms by (auto simp: preserves_def onBody_def split: prod.splits)

lemma forEach_update_distinct:
  "distinct xs \<Longrightarrow>
   forEach xs (\<lambda>r. update r f) h = (Inr (), (\<lambda>r. if r \<in> set xs then f (h r) else h r))"
proof (induction xs arbitrary: h)
  case Nil
  then show ?case by (simp add: ret_def)
next
  case (Cons x xs)
  have "forEach (x # xs) (\<lambda>r. update r f) h = forEach xs (\<lambda>r. update r f) (h(x := f (h x)))"
    by (simp add: bind_def update_def)
  also have "\<dots> = (Inr (), (\<lambda>r. if r \<in> set xs then f ((h(x := f (h x))) r) else (h(x := f (h x))) r))"
    using Cons by simp
  also have "(\<lambda>r. if r \<in> set xs then f ((h(x := f (h x))) r) else (h(x := f (h x))) r)
      = (\<lambda>r. if r \<in> set (x # xs) then f (h r) else h r)"
    using Cons.prems by (auto simp: fun_eq_iff)
  finally show ?case .
qed

lemma calcBoundingBox_fields:
  "center (calcBoundingBox b) = center b" "angle (calcBoundingBox b) = angle b"
  "mass (calcBoundingBox b) = mass b" "pinned (calcBoundingBox b) = pinned b"
  "btype (calcBoundingBox b) = btype b" "vertices (calcBoundingBox b) = vertices b"
  by (simp_all add: calcBoundingBox_def)

lemma moveBody'_center:
  "center (snd (moveBody' b v force)) =
     (if \<not> force \<and> (pinned b \<or> mass b = 0) then center b else addVec2 (center b) v)"
  by (simp add: moveBody'_def Let_def calcBoundingBox_fields)

lemma moveBody'_fields:
  "angle (snd (moveBody' b v force)) = angle b"
  "mass (snd (moveBody' b v force)) = mass b"
  "pinned (snd (moveBody' b v force)) = pinned b"
  by (simp_all add: moveBody'_def Let_def calcBoundingBox_fields)

lemma moveBody'_ok:
  "btype b = CIRCLE \<or> 4 \<le> length (vertices b) \<Longrightarrow> fst (moveBody' b v force) = Inr ()"
  by (cases "btype b") (auto simp: moveBody'_def Let_def)

lemma moveBody'_skip:
  "pinned b \<or> mass b = 0 \<Longrightarrow> moveBody' b v False = (Inr (), b)"
  by (simp add: moveBody'_def)

section \<open>Static bodies keep their pose\<close>

lemma preserves_pose_update:
  assumes "s \<noteq> r \<or> (\<forall>b. center (f b) = center b \<and> angle (f b) = angle b \<and> mass (f b) = mass b)"
  shows "preserves (\<lambda>h. staticPose c a (h r)) (update s f)"
  by (rule preserves_update) (use assms in \<open>auto simp: staticPose_def\<close>)

lemma preserves_pose_other:
  assumes "s \<noteq> r"
  shows "preserves (\<lambda>h. staticPose c a (h r)) (onBody s f)"
  by (rule preserves_onBody) (use assms in simp)

lemma preserves_pose_move:
  "preserves (\<lambda>h. staticPose c a (h r)) (onBody s (\<lambda>b. moveBody' b (v b) False))"
  by (rule preserves_onBody) (simp add: staticPose_def moveBody'_skip)

lemma correctPositions_pose:
  assumes "s1 \<noteq> r"
  shows "preserves (\<lambda>h. staticPose c a (h r)) (correctPositions s1 s2 v)"
  unfolding correctPositions_def
  by (intro preserves_bind preserves_pose_other [OF assms] preserves_pose_move)

lemma applyImpulses_pose:
  "preserves (\<lambda>h. staticPose c a (h r)) (applyImpulses world s1 s2 ci)"
proof (rule preservesI)
  fix h :: heap assume h: "staticPose c a (h r)"
  have u: "\<And>s f. \<forall>b::Body. center (f b) = center b \<and> angle (f b) = angle b \<and> mass (f b) = mass b \<Longrightarrow>
             preserves (\<lambda>h::heap. staticPose c a (h r)) (update s f)"
    by (rule preserves_pose_update) simp
  show "staticPose c a (snd (applyImpulses world s1 s2 ci h) r)"
    unfolding applyImpulses_def Let_def
    apply (split if_split, intro conjI impI)
     apply (simp add: h)
    apply (rule bind_preserved [where P = "\<lambda>h::heap. staticPose c a (h r)"])
      apply (rule u, simp)
     apply (intro preserves_bind preserves_ret u; simp add: Let_def)
    apply (rule h)
    done
qed

lemma resolveCollision_pose:
  assumes "s1 \<noteq> r"
  shows "preserves (\<lambda>h. staticPose c a (h r)) (resolveCollision world s1 s2 ci)"
proof (rule preservesI)
  fix h :: heap assume h: "staticPose c a (h r)"
  show "staticPose c a (snd (resolveCollision world s1 s2 ci h) r)"
    unfolding resolveCollision_def Let_def
    apply (split if_split, intro conjI impI, simp add: h)
    apply (split if_split, intro conjI impI, simp add: h)
    apply (rule bind_preserved [where P = "\<lambda>h::heap. staticPose c a (h r)"])
      apply (rule correctPositions_pose [OF assms])
     apply (rule applyImpulses_pose)
    apply (rule h)
    done
qed

lemma collidePair_pose:
  assumes "bodyI \<noteq> r"
  shows "preserves (\<lambda>h. staticPose c a (h r)) (collidePair world bodyI bodyJ acc)"
proof (rule preservesI)
  fix h :: heap assume h: "staticPose c a (h r)"
  have res: "\<And>ci. staticPose c a (snd
      (bind (resolveCollision world bodyI bodyJ ci) (\<lambda>resolved h'.
         if resolved then
           (Inr (True, snd acc @ [\<lparr>bodyAId = body_id (h' bodyI), bodyBId = body_id (h' bodyJ),
                                   depth = cdepth ci\<rparr>]), h')
         else (Inr acc, h')) h) r)"
    apply (rule bind_preserved [where P = "\<lambda>h::heap. staticPose c a (h r)"])
      apply (rule resolveCollision_pose [OF assms])
     apply (simp add: preserves_def)
    apply (rule h)
    done
  show "staticPose c a (snd (collidePair world bodyI bodyJ acc h) r)"
    unfolding collidePair_def Let_def
    using h assms res
    by (auto split: sum.splits bool.splits prod.splits)
qed

lemma collisionPass_pose:
  assumes "r \<notin> set (dynamicBodies world)"
  shows "preserves (\<lambda>h. staticPose c a (h r)) (collisionPass world cs)"
  unfolding collisionPass_def Let_def
proof (intro preserves_foldM)
  fix i j :: nat and acc acc' :: "bool \<times> Collision list"
  assume "i \<in> set (rev [0..<length (dynamicBodies world)])"
  then have "dynamicBodies world ! i \<in> set (dynamicBodies world)" by simp
  then have "dynamicBodies world ! i \<noteq> r" using assms by auto
  then show "preserves (\<lambda>h. staticPose c a (h r))
      (if i = j then ret acc'
       else collidePair world (dynamicBodies world ! i) (enabledBodies world ! j) acc')"
    by (simp add: preserves_ret collidePair_pose)
qed

lemma resolveLoop_pose:
  assumes "r \<notin> set (dynamicBodies world)"
  shows "preserves (\<lambda>h. staticPose c a (h r)) (resolveLoop k world cs)"
proof (induction k arbitrary: cs)
  case 0
  show ?case by (simp add: preserves_ret)
next
  case (Suc k)
  show ?case
    by (simp, intro preserves_bind collisionPass_pose [OF assms])
      (auto simp: preserves_ret Suc split: prod.splits)
qed

lemma integratePhase_pose:
  assumes "r \<notin> set (dynamicBodies world)"
  shows "preserves (\<lambda>h. staticPose c a (h r)) (integratePhase fps world)"
  unfolding integratePhase_def
  by (intro preserves_forEach preserves_pose_other) (use assms in auto)

lemma applyJoint_pose:
  assumes "body \<noteq> r"
  shows "preserves (\<lambda>h. staticPose c a (h r)) (applyJoint fps all body joint)"
proof (rule preservesI)
  fix h :: heap assume h: "staticPose c a (h r)"
  have mv: "\<And>v. staticPose c a (snd
      (bind (onBody body (\<lambda>b. moveBody' b v False)) (\<lambda>_.
         update body (\<lambda>b. b\<lparr>velocity := addVec2 (velocity b) (scaleVec2 v fps)\<rparr>)) h) r)"
    apply (rule bind_preserved [where P = "\<lambda>h::heap. staticPose c a (h r)"])
      apply (rule preserves_pose_other [OF assms])
     apply (rule preserves_pose_update, simp add: assms)
    apply (rule h)
    done
  show "staticPose c a (snd (applyJoint fps all body joint h) r)"
    unfolding applyJoint_def Let_def
    using h mv by (auto split: option.splits)
qed

lemma applyJoints_pose:
  assumes "body \<noteq> r"
  shows "preserves (\<lambda>h. staticPose c a (h r)) (applyJoints fps world all body)"
proof (rule preservesI)
  fix h :: heap assume h: "staticPose c a (h r)"
  show "staticPose c a (snd (applyJoints fps world all body h) r)"
    unfolding applyJoints_def
    by (rule preservesD [where P = "\<lambda>h::heap. staticPose c a (h r)" and h = h, OF _ h])
      (intro preserves_forEach applyJoint_pose [OF assms])
qed

lemma jointPhase_pose:
  assumes "r \<notin> set (dynamicBodies world)"
  shows "preserves (\<lambda>h. staticPose c a (h r)) (jointPhase fps world)"
  unfolding jointPhase_def
  by (intro preserves_forEach applyJoints_pose) (use assms in auto)

lemma updateResting_pose:
  "center (updateResting fps b) = center b \<and> angle (updateResting fps b) = angle b \<and>
   mass (updateResting fps b) = mass b"
  by (simp add: updateResting_def Let_def)

lemma restingPhase_pose:
  "preserves (\<lambda>h. staticPose c a (h r)) (restingPhase fps world)"
  unfolding restingPhase_def
  by (intro preserves_forEach preserves_pose_update) (simp add: updateResting_pose)

lemma worldStep_pose:
  assumes "r \<notin> set (dynamicBodies world)"
  shows "preserves (\<lambda>h. staticPose c a (h r)) (worldStep fps world)"
  unfolding worldStep_def
  by (intro preserves_bind preserves_ret integratePhase_pose jointPhase_pose resolveLoop_pose
      restingPhase_pose assms)

text \<open>
  C1. A body of the static collection that has zero inverse mass and is not also in the
  dynamic collection has, after a call of \<open>worldStep\<close>, the center and the angle it had
  before; this holds for every world, store and frame rate, and also for a call that is
  ended by an exception.
\<close>

theorem static_invariance:
  assumes "r \<in> set (staticBodies world)" and "r \<notin> set (dynamicBodies world)"
    and "mass (h r) = 0"
  shows "center (snd (worldStep fps world h) r) = center (h r) \<and>
         angle (snd (worldStep fps world h) r) = angle (h r)"
proof -
  have "staticPose (center (h r)) (angle (h r)) (h r)"
    using assms(3) by (simp add: staticPose_def)
  then have "staticPose (center (h r)) (angle (h r)) (snd (worldStep fps world h) r)"
    by (rule preservesD [where P = "\<lambda>h'::heap. staticPose (center (h r)) (angle (h r)) (h' r)",
          OF worldStep_pose [OF assms(2)]])
  then show ?thesis by (simp add: staticPose_def)
qed

theorem static_invariance_witness:
  "Suc 0 \<in> set (staticBodies sceneWorld) \<and> Suc 0 \<notin> set (dynamicBodies sceneWorld) \<and>
   mass (sceneHeap (Suc 0)) = 0 \<and>
   center (snd (worldStep 60 sceneWorld sceneHeap) (Suc 0)) = newVec2 15 0 \<and>
   angle (snd (worldStep 60 sceneWorld sceneHeap) (Suc 0)) = 0"
proof -
  have a: "Suc 0 \<in> set (staticBodies sceneWorld)" and b: "Suc 0 \<notin> set (dynamicBodies sceneWorld)"
    by (simp_all add: sceneWorld_eq)
  have m: "mass (sceneHeap (Suc 0)) = 0" by (simp add: sceneHeap_1)
  show ?thesis
    using static_invariance [where h = sceneHeap and r = "Suc 0" and world = sceneWorld and fps = 60,
            OF a b m] a b m
    by (simp add: sceneHeap_1)
qed

section \<open>Circle against circle\<close>

text \<open>
  C2 (amended). For two circles that are not both of zero inverse mass, \<open>testCollision\<close>
  reports a collision exactly when the distance of the centers is at most
  \<open>sqrt ((r1 + r2)\<^sup>2)\<close>, which is \<open>r1 + r2\<close> when that sum is not negative. When it does,
  the depth is \<open>r1 + r2 - dist\<close> and the start point is the center of circle 2 plus \<open>r2\<close>
  times the normalized vector from the center of circle 2 to the center of circle 1; when
  the centers differ that vector has length 1 and the start point is at distance \<open>|r2|\<close>
  from the center of circle 2.
\<close>

theorem testCollision_circles:
  assumes "btype c1 = CIRCLE" and "btype c2 = CIRCLE" and "mass c1 \<noteq> 0 \<or> mass c2 \<noteq> 0"
  shows "(\<exists>ci'. testCollision c1 c2 ci =
            Inr (lengthVec2 (subtractVec2 (center c2) (center c1)) \<le> sqrt ((bounds c1 + bounds c2)\<^sup>2), ci') \<and>
          (lengthVec2 (subtractVec2 (center c2) (center c1)) \<le> sqrt ((bounds c1 + bounds c2)\<^sup>2) \<longrightarrow>
             cdepth ci' = bounds c1 + bounds c2 - lengthVec2 (subtractVec2 (center c2) (center c1)) \<and>
             start ci' = addVec2 (center c2)
                           (scaleVec2 (normalizeVec2 (subtractVec2 (center c1) (center c2))) (bounds c2)) \<and>
             (center c1 \<noteq> center c2 \<longrightarrow>
                normalizeVec2 (subtractVec2 (center c1) (center c2)) =
                  scaleVec2 (subtractVec2 (center c1) (center c2))
                    (1 / lengthVec2 (subtractVec2 (center c2) (center c1))) \<and>
                lengthVec2 (normalizeVec2 (subtractVec2 (center c1) (center c2))) = 1 \<and>
                lengthVec2 (subtractVec2 (start ci') (center c2)) = \<bar>bounds c2\<bar>)))
     \<and> (0 \<le> bounds c1 + bounds c2 \<longrightarrow>
          sqrt ((bounds c1 + bounds c2)\<^sup>2) = bounds c1 + bounds c2)"
proof -
  let ?d = "lengthVec2 (subtractVec2 (center c2) (center c1))"
  let ?u = "normalizeVec2 (subtractVec2 (center c1) (center c2))"
  let ?ci = "setCollisionInfo ci (bounds c1 + bounds c2 - ?d)
               (normalizeVec2 (subtractVec2 (center c2) (center c1)))
               (addVec2 (center c2) (scaleVec2 ?u (bounds c2)))"
  have res: "testCollision c1 c2 ci =
      Inr (?d \<le> sqrt ((bounds c1 + bounds c2)\<^sup>2),
           if ?d \<le> sqrt ((bounds c1 + bounds c2)\<^sup>2) then ?ci else ci)"
    using assms by (auto simp: testCollision_def Let_def scale_subtract_neg power2_eq_square)
  have unit: "center c1 \<noteq> center c2 \<Longrightarrow>
      ?u = scaleVec2 (subtractVec2 (center c1) (center c2)) (1 / ?d) \<and> lengthVec2 ?u = 1"
    using lengthVec2_normalize [of "subtractVec2 (center c1) (center c2)"]
    by (simp add: normalizeVec2_def lengthVec2_subtract_commute [of "center c2" "center c1"]
        lengthVec2_zero_iff subtract_eq_zero_iff)
  have surf: "center c1 \<noteq> center c2 \<Longrightarrow>
      lengthVec2 (subtractVec2 (start ?ci) (center c2)) = \<bar>bounds c2\<bar>"
    using lengthVec2_normalize [of "subtractVec2 (center c1) (center c2)"]
    by (simp add: setCollisionInfo_def subtract_add_cancel lengthVec2_scale subtract_eq_zero_iff)
  have main: "\<exists>ci'. testCollision c1 c2 ci =
            Inr (?d \<le> sqrt ((bounds c1 + bounds c2)\<^sup>2), ci') \<and>
          (?d \<le> sqrt ((bounds c1 + bounds c2)\<^sup>2) \<longrightarrow>
             cdepth ci' = bounds c1 + bounds c2 - ?d \<and>
             start ci' = addVec2 (center c2) (scaleVec2 ?u (bounds c2)) \<and>
             (center c1 \<noteq> center c2 \<longrightarrow>
                ?u = scaleVec2 (subtractVec2 (center c1) (center c2)) (1 / ?d) \<and>
                lengthVec2 ?u = 1 \<and>
                lengthVec2 (subtractVec2 (start ci') (center c2)) = \<bar>bounds c2\<bar>))"
  proof (cases "?d \<le> sqrt ((bounds c1 + bounds c2)\<^sup>2)")
    case True
    have r: "testCollision c1 c2 ci = Inr (?d \<le> sqrt ((bounds c1 + bounds c2)\<^sup>2), ?ci)"
      using res True by simp
    have d: "cdepth ?ci = bounds c1 + bounds c2 - ?d"
      and s: "start ?ci = addVec2 (center c2) (scaleVec2 ?u (bounds c2))"
      by (simp_all add: setCollisionInfo_def)
    show ?thesis
      by (rule exI [of _ ?ci]) (use r d s unit surf in blast)
  next
    case False
    have r: "testCollision c1 c2 ci = Inr (?d \<le> sqrt ((bounds c1 + bounds c2)\<^sup>2), ci)"
      using res False by simp
    show ?thesis
      by (rule exI [of _ ci]) (use r False in blast)
  qed
  show ?thesis using main by simp
qed

theorem testCollision_circles_witness:
  "btype (sceneHeap 0) = CIRCLE \<and> btype (sceneHeap 1) = CIRCLE \<and>
   mass (sceneHeap 0) \<noteq> 0 \<and>
   lengthVec2 (subtractVec2 (center (sceneHeap 1)) (center (sceneHeap 0))) = 15 \<and>
   (\<exists>ci'. testCollision (sceneHeap 0) (sceneHeap 1) EmptyCollision = Inr (True, ci') \<and>
          cdepth ci' = 5 \<and> start ci' = newVec2 5 0 \<and>
          lengthVec2 (subtractVec2 (start ci') (center (sceneHeap 1))) = 10)"
proof -
  have t: "btype (sceneHeap 0) = CIRCLE" "btype (sceneHeap 1) = CIRCLE"
    and m: "mass (sceneHeap 0) \<noteq> 0 \<or> mass (sceneHeap 1) \<noteq> 0"
    by (simp_all add: sceneHeap_0 sceneHeap_1)
  have d: "lengthVec2 (subtractVec2 (center (sceneHeap 1)) (center (sceneHeap 0))) = 15"
    by (simp add: sceneHeap_0 sceneHeap_1 vec_defs sqrt_225)
  show ?thesis
    using testCollision_circles [OF t m, of EmptyCollision] d
    by (auto simp: sceneHeap_0 sceneHeap_1 vec_defs sqrt_225)
qed

text \<open>
  C2, counterexample. The claim as stated fails in three places: two overlapping circles of zero inverse mass
  are reported as not colliding; for coincident centers the start point is the center of
  circle 2, not a point of its surface; and with a negative sum of radii a collision is
  reported although the distance exceeds the sum.
\<close>

theorem testCollision_circles_counterexample:
  "btype (sceneHeap 1) = CIRCLE \<and>
   btype (fst (createCircle (createWorld None) (newVec2 20 0) 10 0 0.2 0.5)) = CIRCLE \<and>
   lengthVec2 (subtractVec2 (center (fst (createCircle (createWorld None) (newVec2 20 0) 10 0 0.2 0.5)))
                            (center (sceneHeap 1))) = 5 \<and>
   bounds (sceneHeap 1) + bounds (fst (createCircle (createWorld None) (newVec2 20 0) 10 0 0.2 0.5)) = 20 \<and>
   testCollision (sceneHeap 1) (fst (createCircle (createWorld None) (newVec2 20 0) 10 0 0.2 0.5))
       EmptyCollision = Inr (False, EmptyCollision) \<and>
   testCollision (sceneHeap 0) (sceneHeap 0) EmptyCollision =
       Inr (True, \<lparr>cdepth = 20, normal = newVec2 0 0, start = newVec2 0 0, cend = newVec2 0 0\<rparr>) \<and>
   bounds (sceneHeap 0) = 10 \<and>
   testCollision (fst (createCircle (createWorld None) (newVec2 0 0) (- 3) 1 0.2 0.5))
                 (fst (createCircle (createWorld None) (newVec2 5 0) (- 3) 1 0.2 0.5)) EmptyCollision =
       Inr (True, \<lparr>cdepth = - 11, normal = newVec2 1 0, start = newVec2 8 0, cend = newVec2 (- 3) 0\<rparr>) \<and>
   lengthVec2 (subtractVec2 (newVec2 5 0) (newVec2 0 0)) > - 3 + - 3"
  by (simp add: sceneHeap_0 sceneHeap_1 create_defs vec_defs testCollision_def
      setCollisionInfo_def EmptyCollision_def sqrt_25 Let_def)

section \<open>Permeable bodies\<close>

lemma collidePair_permeable_second:
  assumes "boundTest (h bodyI) (h bodyJ)"
    and "testCollision (h bodyI) (h bodyJ) EmptyCollision = Inr (True, ci)"
    and "permeability (h bodyJ) > 0"
  shows "collidePair world bodyI bodyJ acc h =
           (Inr acc,
            h(bodyI := (h bodyI)
                \<lparr>velocity := newVec2 (vx (velocity (h bodyI)) * (1 - permeability (h bodyJ)))
                                     (vy (velocity (h bodyI)) * (1 - permeability (h bodyJ))),
                 angularVelocity := angularVelocity (h bodyI) * (1 - permeability (h bodyJ))\<rparr>))"
  using assms by (simp add: collidePair_def Let_def)

lemma resolveCollision_permeable:
  "resolveCollision sceneWorld 0 (Suc 0) sceneContact permeableHeap =
     (Inr True, permeableHeap(0 := (permeableHeap 0)\<lparr>center := newVec2 (- 4) 0\<rparr>))"
  by (simp add: resolve_defs impulse_defs sceneContact_def permeableHeap_def sceneHeap_0 sceneHeap_1
      vec_defs monad_defs Let_def sceneWorld_eq fun_eq_iff)

text \<open>
  C3, at a failing input. The first body of the pair, the dynamic circle, has
  permeability 1/2 and the second, the static circle, has permeability 0. The pair is
  resolved as an ordinary collision: the position correction moves the permeable body
  from (0, 0) to (-4, 0) and the collision is reported.
\<close>

theorem permeable_first_body_resolved:
  "permeability (permeableHeap 0) = 1 / 2 \<and> permeability (permeableHeap (Suc 0)) = 0 \<and>
   dynamicBodies sceneWorld ! 0 = 0 \<and> enabledBodies sceneWorld ! 1 = Suc 0 \<and>
   boundTest (permeableHeap 0) (permeableHeap (Suc 0)) \<and>
   testCollision (permeableHeap 0) (permeableHeap (Suc 0)) EmptyCollision = Inr (True, sceneContact) \<and>
   fst (collidePair sceneWorld 0 (Suc 0) (False, []) permeableHeap) =
     Inr (True, [\<lparr>bodyAId = 1, bodyBId = 2, depth = 5\<rparr>]) \<and>
   center (permeableHeap 0) = newVec2 0 0 \<and>
   center (snd (collidePair sceneWorld 0 (Suc 0) (False, []) permeableHeap) 0) = newVec2 (- 4) 0"
proof -
  have b: "boundTest (permeableHeap 0) (permeableHeap (Suc 0))"
    by (simp add: boundTest_def permeableHeap_0 permeableHeap_1 sceneHeap_0 sceneHeap_1)
  have p: "\<not> permeability (permeableHeap (Suc 0)) > 0"
    by (simp add: permeableHeap_1 sceneHeap_1)
  have o: "\<not> dotProduct (normal sceneContact)
             (subtractVec2 (center (permeableHeap (Suc 0))) (center (permeableHeap 0))) < 0"
    by (simp add: sceneContact_def permeableHeap_0 permeableHeap_1 sceneHeap_0 sceneHeap_1 vec_defs)
  have c: "collidePair sceneWorld 0 (Suc 0) (False, []) permeableHeap =
      (Inr (True, [\<lparr>bodyAId = 1, bodyBId = 2, depth = 5\<rparr>]),
       permeableHeap(0 := (permeableHeap 0)\<lparr>center := newVec2 (- 4) 0\<rparr>))"
    unfolding collidePair_def
    by (simp add: b testCollision_permeable p o bind_def resolveCollision_permeable)
      (simp add: permeableHeap_def sceneHeap_0 sceneHeap_1 sceneContact_def)
  show ?thesis
    unfolding c
    by (simp add: b testCollision_permeable)
      (simp add: permeableHeap_def sceneHeap_0 sceneHeap_1 sceneWorld_eq enabledBodies_def)
qed

section \<open>The friction impulse\<close>













section \<open>Position correction\<close>

lemma applyImpulses_center:
  "preserves (\<lambda>h. center (h r) = c) (applyImpulses world s1 s2 ci)"
proof (rule preservesI)
  fix h :: heap assume h: "center (h r) = c"
  have u: "\<And>s f. \<forall>b::Body. center (f b) = center b \<Longrightarrow>
             preserves (\<lambda>h::heap. center (h r) = c) (update s f)"
    by (rule preserves_update) simp
  show "center (snd (applyImpulses world s1 s2 ci h) r) = c"
    unfolding applyImpulses_def Let_def
    apply (split if_split, intro conjI impI)
     apply (simp add: h)
    apply (rule bind_preserved [where P = "\<lambda>h::heap. center (h r) = c"])
      apply (rule u, simp)
     apply (intro preserves_bind preserves_ret u; simp add: Let_def)
    apply (rule h)
    done
qed

lemma correctPositions_heap:
  assumes "s1 \<noteq> s2" and "btype (h s1) = CIRCLE \<or> 4 \<le> length (vertices (h s1))"
  shows "snd (correctPositions s1 s2 c h) =
           h(s1 := snd (moveBody' (h s1) (scaleVec2 c (- mass (h s1))) False),
             s2 := snd (moveBody' (h s2) (scaleVec2 c (mass (h s2))) False))"
    and "fst (correctPositions s1 s2 c h) = fst (moveBody' (h s2) (scaleVec2 c (mass (h s2))) False)"
  using assms moveBody'_ok [OF assms(2), of "scaleVec2 c (- mass (h s1))" False]
  by (auto simp: correctPositions_def bind_def onBody_def split: prod.splits sum.splits)

lemma resolveCollision_center_eq:
  assumes "mass (h s1) \<noteq> 0 \<or> mass (h s2) \<noteq> 0"
    and "correctionAmount (h s1) (h s2) ci \<noteq> newVec2 0 0"
  shows "center (snd (resolveCollision world s1 s2 ci h) r) =
         center (snd (correctPositions s1 s2 (correctionAmount (h s1) (h s2) ci) h) r)"
proof -
  let ?c = "correctionAmount (h s1) (h s2) ci"
  let ?h2 = "snd (correctPositions s1 s2 ?c h)"
  have r: "resolveCollision world s1 s2 ci h =
      bind (correctPositions s1 s2 ?c) (\<lambda>_. applyImpulses world s1 s2 ci) h"
    using assms by (auto simp: resolveCollision_def Let_def vec_zero_iff)
  have "center (snd (applyImpulses world s1 s2 ci ?h2) r) = center (?h2 r)"
    using preservesD [OF applyImpulses_center [of r "center (?h2 r)" world s1 s2 ci], of ?h2]
    by simp
  then show ?thesis
    unfolding r by (cases "correctPositions s1 s2 ?c h"; cases "fst (correctPositions s1 s2 ?c h)")
      (auto simp: bind_def)
qed

lemma resolveCollision_centers:
  assumes "s1 \<noteq> s2"
    and "mass (h s1) \<noteq> 0 \<or> mass (h s2) \<noteq> 0"
    and "correctionAmount (h s1) (h s2) ci \<noteq> newVec2 0 0"
    and "btype (h s1) = CIRCLE \<or> 4 \<le> length (vertices (h s1))"
  shows "center (snd (resolveCollision world s1 s2 ci h) s1) =
           (if pinned (h s1) \<or> mass (h s1) = 0 then center (h s1)
            else addVec2 (center (h s1))
                   (scaleVec2 (correctionAmount (h s1) (h s2) ci) (- mass (h s1)))) \<and>
         center (snd (resolveCollision world s1 s2 ci h) s2) =
           (if pinned (h s2) \<or> mass (h s2) = 0 then center (h s2)
            else addVec2 (center (h s2))
                   (scaleVec2 (correctionAmount (h s1) (h s2) ci) (mass (h s2))))"
  using assms(1)
  by (simp add: resolveCollision_center_eq [OF assms(2,3)]
      correctPositions_heap(1) [where h = h and ?s1.0 = s1 and ?s2.0 = s2, OF assms(1,4)]
      moveBody'_center)

lemma resolveCollision_pinned:
  "resolveCollision (fst pinnedScene) 0 (Suc 0) sceneContact (snd pinnedScene) =
     (Inr True, (snd pinnedScene)(0 := (sceneHeap 0)\<lparr>center := newVec2 (- 2) 0\<rparr>))"
  by (simp add: pinnedScene_eq resolve_defs impulse_defs sceneContact_def sceneHeap_0 sceneHeap_1
      vec_defs monad_defs Let_def sceneWorld_eq fun_upd_twist)

text \<open>
  C5 (amended). When \<open>resolveCollision\<close> gets past its two early returns, with two
  different bodies of which the first does not make \<open>_moveBody\<close> throw, the correction is
  \<open>normal * (depth / (invMassA + invMassB) * 0.8)\<close> and the moves are not forced: a body
  that is pinned or of zero inverse mass keeps its center, any other first body is
  translated by \<open>- correction * invMassA\<close> and any other second body by
  \<open>correction * invMassB\<close>. The rest of the resolution leaves the centers as they are.
\<close>

theorem position_correction:
  assumes "s1 \<noteq> s2"
    and "mass (h s1) \<noteq> 0 \<or> mass (h s2) \<noteq> 0"
    and "correctionAmount (h s1) (h s2) ci \<noteq> newVec2 0 0"
    and "btype (h s1) = CIRCLE \<or> 4 \<le> length (vertices (h s1))"
  shows "correctionAmount (h s1) (h s2) ci =
           scaleVec2 (normal ci) (cdepth ci / (mass (h s1) + mass (h s2)) * 0.8) \<and>
         center (snd (resolveCollision world s1 s2 ci h) s1) =
           (if pinned (h s1) \<or> mass (h s1) = 0 then center (h s1)
            else addVec2 (center (h s1))
                   (scaleVec2 (correctionAmount (h s1) (h s2) ci) (- mass (h s1)))) \<and>
         center (snd (resolveCollision world s1 s2 ci h) s2) =
           (if pinned (h s2) \<or> mass (h s2) = 0 then center (h s2)
            else addVec2 (center (h s2))
                   (scaleVec2 (correctionAmount (h s1) (h s2) ci) (mass (h s2))))"
  using resolveCollision_centers [OF assms] by (simp add: correctionAmount_def)

theorem position_correction_witness:
  "(0::nat) \<noteq> Suc 0 \<and> mass (snd pinnedScene 0) \<noteq> 0 \<and>
   correctionAmount (snd pinnedScene 0) (snd pinnedScene (Suc 0)) sceneContact = newVec2 2 0 \<and>
   btype (snd pinnedScene 0) = CIRCLE \<and>
   \<not> pinned (snd pinnedScene 0) \<and> pinned (snd pinnedScene (Suc 0)) \<and>
   center (snd (resolveCollision (fst pinnedScene) 0 (Suc 0) sceneContact (snd pinnedScene)) 0)
     = newVec2 (- 2) 0 \<and>
   center (snd (resolveCollision (fst pinnedScene) 0 (Suc 0) sceneContact (snd pinnedScene)) (Suc 0))
     = newVec2 15 0"
proof -
  have a: "(0::nat) \<noteq> Suc 0" by simp
  have b: "mass (snd pinnedScene 0) \<noteq> 0 \<or> mass (snd pinnedScene (Suc 0)) \<noteq> 0"
    by (simp add: pinnedScene_eq sceneHeap_0)
  have c: "correctionAmount (snd pinnedScene 0) (snd pinnedScene (Suc 0)) sceneContact = newVec2 2 0"
    by (simp add: pinnedScene_eq sceneHeap_0 sceneHeap_1 correctionAmount_def sceneContact_def vec_defs)
  have c': "correctionAmount (snd pinnedScene 0) (snd pinnedScene (Suc 0)) sceneContact \<noteq> newVec2 0 0"
    by (simp add: c)
  have d: "btype (snd pinnedScene 0) = CIRCLE \<or> 4 \<le> length (vertices (snd pinnedScene 0))"
    by (simp add: pinnedScene_eq sceneHeap_0)
  show ?thesis
    using position_correction [OF a b c' d, of "fst pinnedScene"]
    by (simp add: c) (simp add: pinnedScene_eq sceneHeap_0 sceneHeap_1 vec_defs)
qed

text \<open>
  C5, counterexample. The claim as stated fails for a pinned body: in \<open>pinnedScene\<close> the correction is (2, 0)
  and the inverse mass of the pinned second body is 1, but its center stays at (15, 0).
\<close>

theorem position_correction_counterexample:
  "pinned (snd pinnedScene (Suc 0)) \<and> mass (snd pinnedScene (Suc 0)) = 1 \<and>
   center (snd pinnedScene (Suc 0)) = newVec2 15 0 \<and>
   testCollision (snd pinnedScene 0) (snd pinnedScene (Suc 0)) EmptyCollision = Inr (True, sceneContact) \<and>
   scaleVec2 (correctionAmount (snd pinnedScene 0) (snd pinnedScene (Suc 0)) sceneContact)
             (mass (snd pinnedScene (Suc 0))) = newVec2 2 0 \<and>
   fst (resolveCollision (fst pinnedScene) 0 (Suc 0) sceneContact (snd pinnedScene)) = Inr True \<and>
   center (snd (resolveCollision (fst pinnedScene) 0 (Suc 0) sceneContact (snd pinnedScene)) (Suc 0))
     = newVec2 15 0"
  unfolding resolveCollision_pinned
  by (simp add: pinnedScene_eq sceneHeap_0 sceneHeap_1 correctionAmount_def sceneContact_def vec_defs
      testCollision_def sqrt_225 setCollisionInfo_def EmptyCollision_def Let_def)

section \<open>The collision loop\<close>

lemma passes_shift:
  assumes "collisionPass world cs h = (Inr (True, cs'), h')"
  shows "passes (Suc n) world cs h = passes n world cs' h'"
proof (induction n)
  case 0
  show ?case using assms by (simp add: bind_def ret_def)
next
  case (Suc n)
  have "passes (Suc (Suc n)) world cs h =
      bind (passes (Suc n) world cs) (\<lambda>(collision, collisions'). collisionPass world collisions') h"
    by simp
  also have "\<dots> = bind (passes n world cs') (\<lambda>(collision, collisions'). collisionPass world collisions') h'"
    unfolding bind_def Suc ..
  finally show ?case by simp
qed

lemma passes_one: "passes (Suc 0) world cs h = collisionPass world cs h"
  by (simp add: bind_def ret_def split: prod.splits sum.splits)

lemma passCount_le: "passCount k world cs h \<le> k"
  by (induction k arbitrary: cs h) (auto split: prod.splits sum.splits bool.splits)

lemma resolveLoop_passes:
  "resolveLoop k world cs h = finish (passes (passCount k world cs h) world cs h)"
proof (induction k arbitrary: cs h)
  case 0
  show ?case by (simp add: ret_def finish_def)
next
  case (Suc k)
  show ?case
  proof (cases "collisionPass world cs h")
    case (Pair res h')
    show ?thesis
    proof (cases res)
      case (Inl e)
      with Pair show ?thesis by (simp add: bind_def passes_one finish_def del: passes.simps)
    next
      case (Inr p)
      obtain c cs' where p: "p = (c, cs')" by (cases p)
      show ?thesis
      proof (cases c)
        case True
        with Pair Inr p have cp: "collisionPass world cs h = (Inr (True, cs'), h')" by simp
        show ?thesis
          using cp Suc [of cs' h'] by (simp add: bind_def passes_shift [OF cp] del: passes.simps)
      next
        case False
        with Pair Inr p show ?thesis
          by (simp add: bind_def ret_def passes_one finish_def del: passes.simps)
      qed
    qed
  qed
qed

lemma passCount_first:
  "collisionPass world cs h = (Inr (True, cs'), h') \<Longrightarrow>
     passCount (Suc k) world cs h = Suc (passCount k world cs' h')"
  by simp

lemma passCount_first_stop:
  "\<not> (\<exists>cs' h'. collisionPass world cs h = (Inr (True, cs'), h')) \<Longrightarrow>
     passCount (Suc k) world cs h = Suc 0"
  by (auto split: prod.splits sum.splits bool.splits)

lemma passes_before_last:
  "0 < m \<Longrightarrow> m < passCount k world cs h \<Longrightarrow>
     \<exists>cs' h'. passes m world cs h = (Inr (True, cs'), h')"
proof (induction k arbitrary: cs h m)
  case 0
  then show ?case by simp
next
  case (Suc k)
  show ?case
  proof (cases "\<exists>cs' h'. collisionPass world cs h = (Inr (True, cs'), h')")
    case False
    then show ?thesis using Suc.prems by (simp add: passCount_first_stop del: passCount.simps)
  next
    case True
    then obtain cs' h' where cp: "collisionPass world cs h = (Inr (True, cs'), h')" by blast
    obtain m' where m: "m = Suc m'" using Suc.prems(1) by (cases m) auto
    have lt: "m' < passCount k world cs' h'"
      using Suc.prems(2) by (simp add: m passCount_first [OF cp] del: passCount.simps)
    show ?thesis
    proof (cases "m' = 0")
      case True
      then show ?thesis using cp by (simp add: m passes_one del: passes.simps)
    next
      case False
      then have "\<exists>cs'' h''. passes m' world cs' h' = (Inr (True, cs''), h'')"
        using Suc.IH [of m' cs' h'] lt by simp
      then show ?thesis by (simp add: m passes_shift [OF cp] del: passes.simps)
    qed
  qed
qed

lemma last_pass_early:
  "passCount k world cs h < k \<Longrightarrow>
     \<not> (\<exists>cs' h'. passes (passCount k world cs h) world cs h = (Inr (True, cs'), h'))"
proof (induction k arbitrary: cs h)
  case 0
  then show ?case by simp
next
  case (Suc k)
  show ?case
  proof (cases "\<exists>cs' h'. collisionPass world cs h = (Inr (True, cs'), h')")
    case False
    then show ?thesis by (simp add: passCount_first_stop passes_one del: passCount.simps passes.simps)
  next
    case True
    then obtain cs' h' where cp: "collisionPass world cs h = (Inr (True, cs'), h')" by blast
    have "passCount k world cs' h' < k"
      using Suc.prems by (simp add: passCount_first [OF cp] del: passCount.simps)
    then have "\<not> (\<exists>cs'' h''. passes (passCount k world cs' h') world cs' h' = (Inr (True, cs''), h''))"
      by (rule Suc.IH)
    then show ?thesis
      by (simp add: passCount_first [OF cp] passes_shift [OF cp] del: passCount.simps passes.simps)
  qed
qed

lemma grows_refl: "grows acc acc"
  by (simp add: grows_def)

lemma grows_trans: "grows a b \<Longrightarrow> grows b c \<Longrightarrow> grows a c"
  by (auto simp: grows_def)

lemma collidePair_grows:
  "collidePair world bodyI bodyJ acc h = (Inr acc', h') \<Longrightarrow> grows acc acc'"
  by (auto simp: collidePair_def Let_def bind_def grows_def
      split: if_splits sum.splits prod.splits bool.splits)

lemma foldM_grows:
  assumes "\<And>x acc acc' h h'. f x acc h = (Inr acc', h') \<Longrightarrow> grows acc acc'"
  shows "foldM f xs acc h = (Inr acc', h') \<Longrightarrow> grows acc acc'"
proof (induction xs arbitrary: acc h)
  case Nil
  then show ?case by (simp add: ret_def grows_refl)
next
  case (Cons x xs)
  from Cons.prems obtain acc1 h1 where
    1: "f x acc h = (Inr acc1, h1)" and 2: "foldM f xs acc1 h1 = (Inr acc', h')"
    by (auto simp: bind_def split: prod.splits sum.splits)
  show ?case using assms [OF 1] Cons.IH [OF 2] by (rule grows_trans)
qed

lemma collisionPass_flag:
  assumes "collisionPass world cs h = (Inr (collision, cs'), h')"
  shows "length cs \<le> length cs' \<and> collision = (length cs < length cs')"
proof -
  have "grows (False, cs) (collision, cs')"
    using assms unfolding collisionPass_def Let_def
    by (rule foldM_grows [rotated], elim foldM_grows [rotated])
      (auto simp: ret_def grows_refl dest: collidePair_grows split: if_splits)
  then show ?thesis by (simp add: grows_def)
qed

text \<open>
  C6. The collision loop of \<open>worldStep\<close>, which starts with 9 passes left, runs a number
  of passes that is at most 9, and its outcome is the outcome of that many passes in a
  row. Every pass before the last one has resolved a collision, and when fewer than 9
  passes are run the last one has not (it has resolved none, or has thrown): the loop
  stops at the first pass that resolves no collision. The flag of a pass says that it has
  resolved a collision: by \<open>collisionPass_flag\<close> it is set exactly when the pass has
  appended a collision to the list.
\<close>

theorem resolveLoop_at_most_nine:
  "passCount 9 world cs h \<le> 9 \<and>
   resolveLoop 9 world cs h = finish (passes (passCount 9 world cs h) world cs h) \<and>
   (\<forall>m. 0 < m \<and> m < passCount 9 world cs h \<longrightarrow>
        (\<exists>cs' h'. passes m world cs h = (Inr (True, cs'), h'))) \<and>
   (passCount 9 world cs h < 9 \<longrightarrow>
        \<not> (\<exists>cs' h'. passes (passCount 9 world cs h) world cs h = (Inr (True, cs'), h')))"
  using passCount_le [of 9 world cs h] resolveLoop_passes [of 9 world cs h]
    passes_before_last [of _ 9 world cs h] last_pass_early [of 9 world cs h]
  by blast

lemma approach_pass1:
  "collisionPass sceneWorld [] approachHeap =
     (Inr (True, [\<lparr>bodyAId = Suc 0, bodyBId = 2, depth = 5\<rparr>]),
      sceneHeap(0 := (sceneHeap 0)\<lparr>center := newVec2 (- 4) 0, velocity := newVec2 (- (147 / 100)) 0\<rparr>))"
  by (simp add: pass_defs resolve_defs impulse_defs approachHeap_def sceneHeap_0 sceneHeap_1
      vec_defs monad_defs Let_def sceneWorld_eq sqrt_225 fun_eq_iff)

lemma approach_pass2:
  "collisionPass sceneWorld [\<lparr>bodyAId = Suc 0, bodyBId = 2, depth = 5\<rparr>]
     (sceneHeap(0 := (sceneHeap 0)\<lparr>center := newVec2 (- 4) 0, velocity := newVec2 (- (147 / 100)) 0\<rparr>)) =
     (Inr (False, [\<lparr>bodyAId = Suc 0, bodyBId = 2, depth = 5\<rparr>]),
      sceneHeap(0 := (sceneHeap 0)\<lparr>center := newVec2 (- (24 / 5)) 0, velocity := newVec2 (- (147 / 100)) 0\<rparr>))"
  by (simp add: pass_defs resolve_defs impulse_defs sceneHeap_0 sceneHeap_1
      vec_defs monad_defs Let_def sceneWorld_eq sqrt_361 fun_eq_iff)

lemma passCount_numeral:
  "passCount (numeral n) world cs h =
     (case collisionPass world cs h of
        (Inr (True, cs'), h') \<Rightarrow> Suc (passCount (pred_numeral n) world cs' h')
      | _ \<Rightarrow> Suc 0)"
  by (simp add: numeral_eq_Suc)

lemma approach_passCount: "passCount 9 sceneWorld [] approachHeap = Suc (Suc 0)"
  by (simp add: passCount_numeral approach_pass1 approach_pass2)

lemma approach_passes_1:
  "passes (Suc 0) sceneWorld [] approachHeap =
     (Inr (True, [\<lparr>bodyAId = Suc 0, bodyBId = 2, depth = 5\<rparr>]),
      sceneHeap(0 := (sceneHeap 0)\<lparr>center := newVec2 (- 4) 0, velocity := newVec2 (- (147 / 100)) 0\<rparr>))"
  by (simp add: passes_one approach_pass1 del: passes.simps)

lemma approach_passes_2:
  "passes (Suc (Suc 0)) sceneWorld [] approachHeap =
     (Inr (False, [\<lparr>bodyAId = Suc 0, bodyBId = 2, depth = 5\<rparr>]),
      sceneHeap(0 := (sceneHeap 0)\<lparr>center := newVec2 (- (24 / 5)) 0, velocity := newVec2 (- (147 / 100)) 0\<rparr>))"
  by (simp add: passes_shift [OF approach_pass1] passes_one approach_pass2 del: passes.simps)

theorem resolveLoop_at_most_nine_witness:
  "passCount 9 sceneWorld [] approachHeap = Suc (Suc 0) \<and>
   0 < Suc 0 \<and> Suc 0 < passCount 9 sceneWorld [] approachHeap \<and>
   passCount 9 sceneWorld [] approachHeap < 9 \<and>
   (\<exists>cs' h'. passes (Suc 0) sceneWorld [] approachHeap = (Inr (True, cs'), h')) \<and>
   \<not> (\<exists>cs' h'. passes (Suc (Suc 0)) sceneWorld [] approachHeap = (Inr (True, cs'), h')) \<and>
   resolveLoop 9 sceneWorld [] approachHeap =
     (Inr [\<lparr>bodyAId = Suc 0, bodyBId = 2, depth = 5\<rparr>],
      sceneHeap(0 := (sceneHeap 0)\<lparr>center := newVec2 (- (24 / 5)) 0, velocity := newVec2 (- (147 / 100)) 0\<rparr>))"
  using resolveLoop_at_most_nine [of sceneWorld "[]" approachHeap]
  unfolding approach_passCount
  by (simp add: approach_passes_1 approach_passes_2 finish_def del: passes.simps)

section \<open>Normalizing a vector\<close>

text \<open>
  C7. For a vector of nonzero length, \<open>normalizeVec2 v\<close> is \<open>scaleVec2 v (1 / lengthVec2 v)\<close>;
  a vector of length zero is the zero vector, the divisor is then 1 and \<open>normalize\<close>
  returns it unchanged.
\<close>

theorem normalize_guard:
  "(lengthVec2 v \<noteq> 0 \<longrightarrow> normalizeVec2 v = scaleVec2 v (1 / lengthVec2 v)) \<and>
   (lengthVec2 v = 0 \<longrightarrow> v = newVec2 0 0 \<and> normalizeVec2 v = scaleVec2 v (1 / 1) \<and> normalizeVec2 v = v)"
  by (cases v) (auto simp: normalizeVec2_def scaleVec2_def lengthVec2_zero_iff)

theorem normalize_guard_witness:
  "lengthVec2 (newVec2 3 4) \<noteq> 0 \<and>
   normalizeVec2 (newVec2 3 4) = scaleVec2 (newVec2 3 4) (1 / lengthVec2 (newVec2 3 4)) \<and>
   lengthVec2 (newVec2 0 0) = 0 \<and> normalizeVec2 (newVec2 0 0) = newVec2 0 0"
  using normalize_guard [of "newVec2 3 4"] normalize_guard [of "newVec2 0 0"]
  by (simp add: lengthVec2_zero_iff scaleVec2_def)

section \<open>The resting times\<close>

lemma worldStep_split:
  "worldStep fps world =
     bind (beforeResting fps world) (\<lambda>collisions.
     bind (restingPhase fps world) (\<lambda>_. ret collisions))"
  by (simp add: worldStep_def beforeResting_def bind_assoc)

lemma updateResting_moving:
  assumes "mass b > 0"
  shows "restingTime (updateResting fps b) =
           (if \<bar>vx (center b) - vx (averageCenter b)\<bar> > 1 \<or>
               \<bar>vy (center b) - vy (averageCenter b)\<bar> > 1 \<or>
               \<bar>angle b - averageAngle b\<bar> \<ge> 0.1
            then 0 else restingTime b + 1 / fps) \<and>
         averageCenter (updateResting fps b) =
           newVec2 (if \<bar>vx (center b) - vx (averageCenter b)\<bar> > 1
                    then vx (center b) else vx (averageCenter b))
                   (if \<bar>vy (center b) - vy (averageCenter b)\<bar> > 1
                    then vy (center b) else vy (averageCenter b)) \<and>
         averageAngle (updateResting fps b) =
           (if \<bar>angle b - averageAngle b\<bar> \<ge> 0.1 then angle b else averageAngle b) \<and>
         center (updateResting fps b) = center b \<and>
         angle (updateResting fps b) = angle b"
proof -
  define dx where "dx \<longleftrightarrow> \<bar>vx (center b) - vx (averageCenter b)\<bar> > 1"
  define dy where "dy \<longleftrightarrow> \<bar>vy (center b) - vy (averageCenter b)\<bar> > 1"
  define da where "da \<longleftrightarrow> \<bar>angle b - averageAngle b\<bar> \<ge> 0.1"
  have "updateResting fps b =
      (let b0 = b\<lparr>restingTime := restingTime b + 1 / fps\<rparr>;
           b1 = (if dx then b0\<lparr>averageCenter := newVec2 (vx (center b)) (vy (averageCenter b)),
                              restingTime := 0\<rparr> else b0);
           b2 = (if dy then b1\<lparr>averageCenter := newVec2 (vx (averageCenter b1)) (vy (center b)),
                              restingTime := 0\<rparr> else b1)
       in if da then b2\<lparr>averageAngle := angle b, restingTime := 0\<rparr> else b2)"
    using assms unfolding dx_def dy_def da_def updateResting_def Let_def
    by (cases "\<bar>vx (center b) - vx (averageCenter b)\<bar> > 1") simp_all
  then have "restingTime (updateResting fps b) = (if dx \<or> dy \<or> da then 0 else restingTime b + 1 / fps) \<and>
         averageCenter (updateResting fps b) =
           newVec2 (if dx then vx (center b) else vx (averageCenter b))
                   (if dy then vy (center b) else vy (averageCenter b)) \<and>
         averageAngle (updateResting fps b) = (if da then angle b else averageAngle b) \<and>
         center (updateResting fps b) = center b \<and>
         angle (updateResting fps b) = angle b"
    by (cases dx; cases dy; cases da) (simp_all add: Let_def)
  then show ?thesis unfolding dx_def dy_def da_def .
qed

text \<open>
  C8 (amended). When the first three loops of \<open>worldStep\<close> end normally in the store
  \<open>h1\<close>, the step ends normally, and for a body of positive \<open>mass\<close> that is once among
  \<open>allBodies\<close>: the resting time is 0 when the center is more than 1 away from
  \<open>averageCenter\<close> on an axis or the angle at least 0.1 away from \<open>averageAngle\<close>, and
  has grown by \<open>1 / fps\<close> otherwise; of \<open>averageCenter.x\<close>, \<open>averageCenter.y\<close> and
  \<open>averageAngle\<close>, each one that is out of its tolerance is set to the current value and
  the others are kept.
\<close>

theorem resting_update:
  assumes "distinct (allBodies world)" and "body \<in> set (allBodies world)"
    and "beforeResting fps world h = (Inr collisions, h1)"
    and "mass (h1 body) > 0"
  shows "\<exists>h'. worldStep fps world h = (Inr collisions, h') \<and>
           restingTime (h' body) =
             (if \<bar>vx (center (h1 body)) - vx (averageCenter (h1 body))\<bar> > 1 \<or>
                 \<bar>vy (center (h1 body)) - vy (averageCenter (h1 body))\<bar> > 1 \<or>
                 \<bar>angle (h1 body) - averageAngle (h1 body)\<bar> \<ge> 0.1
              then 0 else restingTime (h1 body) + 1 / fps) \<and>
           averageCenter (h' body) =
             newVec2 (if \<bar>vx (center (h1 body)) - vx (averageCenter (h1 body))\<bar> > 1
                      then vx (center (h1 body)) else vx (averageCenter (h1 body)))
                     (if \<bar>vy (center (h1 body)) - vy (averageCenter (h1 body))\<bar> > 1
                      then vy (center (h1 body)) else vy (averageCenter (h1 body))) \<and>
           averageAngle (h' body) =
             (if \<bar>angle (h1 body) - averageAngle (h1 body)\<bar> \<ge> 0.1
              then angle (h1 body) else averageAngle (h1 body)) \<and>
           center (h' body) = center (h1 body) \<and> angle (h' body) = angle (h1 body)"
proof -
  let ?h' = "\<lambda>r. if r \<in> set (allBodies world) then updateResting fps (h1 r) else h1 r"
  have "restingPhase fps world h1 = (Inr (), ?h')"
    using assms(1) by (simp add: restingPhase_def forEach_update_distinct)
  then have w: "worldStep fps world h = (Inr collisions, ?h')"
    using assms(3) by (simp add: worldStep_split bind_def ret_def)
  have b: "?h' body = updateResting fps (h1 body)"
    using assms(2) by simp
  show ?thesis
    by (rule exI [of _ ?h'], unfold b, rule conjI [OF w updateResting_moving [OF assms(4)]])
qed

lemma resolveLoop_numeral:
  "resolveLoop (numeral n) world cs =
     bind (collisionPass world cs) (\<lambda>(collision, cs').
       if \<not> collision then ret cs' else resolveLoop (pred_numeral n) world cs')"
  by (simp add: numeral_eq_Suc)

lemma collisionPass_single:
  "dynamicBodies world = [r] \<Longrightarrow> staticBodies world = [] \<Longrightarrow>
   collisionPass world cs = ret (False, cs)"
  by (simp add: collisionPass_def enabledBodies_def ret_def bind_def fun_eq_iff Let_def)

lemma beforeResting_drift:
  "beforeResting 60 driftWorld driftHeap =
     (Inr [], driftHeap(0 := (sceneHeap 0)\<lparr>center := newVec2 5 (1 / 36), velocity := newVec2 0 (5 / 3)\<rparr>))"
  by (simp add: beforeResting_def integratePhase_def jointPhase_def driftWorld_eq createWorld_def
      resolveLoop_numeral collisionPass_single applyJoints_def monad_defs
      integrateBody_def moveBody'_def rotateBody_def driftHeap_eq sceneHeap_0 vec_defs)

lemma worldStep_drift:
  "worldStep 60 driftWorld driftHeap =
     (Inr [], driftHeap(0 := (sceneHeap 0)
        \<lparr>center := newVec2 5 (1 / 36), velocity := newVec2 0 (5 / 3),
         averageCenter := newVec2 5 0\<rparr>))"
  unfolding worldStep_split bind_def [of "beforeResting 60 driftWorld"] beforeResting_drift
  by (simp add: bind_def ret_def update_def restingPhase_def
      allBodies_def driftWorld_eq createWorld_def updateResting_def sceneHeap_0)

theorem resting_update_witness:
  "distinct (allBodies driftWorld) \<and> 0 \<in> set (allBodies driftWorld) \<and>
   fst (beforeResting 60 driftWorld driftHeap) = Inr [] \<and>
   mass (snd (beforeResting 60 driftWorld driftHeap) 0) > 0 \<and>
   (\<exists>h'. worldStep 60 driftWorld driftHeap = (Inr [], h') \<and>
         restingTime (h' 0) = 0 \<and> averageCenter (h' 0) = newVec2 5 0 \<and>
         averageAngle (h' 0) = 0 \<and> center (h' 0) = newVec2 5 (1 / 36) \<and> angle (h' 0) = 0)"
proof -
  let ?h1 = "snd (beforeResting 60 driftWorld driftHeap)"
  have d: "distinct (allBodies driftWorld)" and i: "0 \<in> set (allBodies driftWorld)"
    by (simp_all add: allBodies_def driftWorld_eq createWorld_def)
  have b: "beforeResting 60 driftWorld driftHeap = (Inr [], ?h1)"
    by (simp add: beforeResting_drift)
  have m: "mass (?h1 0) > 0"
    by (simp add: beforeResting_drift sceneHeap_0)
  show ?thesis
    using resting_update [OF d i b m] d i m
    by (simp add: beforeResting_drift sceneHeap_0)
qed

text \<open>
  C8, counterexample. The claim as stated fails where one coordinate has drifted and another
  has not: after the step of the second scene the center is (5, 1/36) and \<open>averageCenter\<close>
  is (5, 0).
\<close>

theorem resting_update_counterexample:
  "fst (worldStep 60 driftWorld driftHeap) = Inr [] \<and>
   mass (snd (beforeResting 60 driftWorld driftHeap) 0) > 0 \<and>
   \<bar>vx (center (snd (beforeResting 60 driftWorld driftHeap) 0))
      - vx (averageCenter (snd (beforeResting 60 driftWorld driftHeap) 0))\<bar> > 1 \<and>
   center (snd (worldStep 60 driftWorld driftHeap) 0) = newVec2 5 (1 / 36) \<and>
   averageCenter (snd (worldStep 60 driftWorld driftHeap) 0) = newVec2 5 0"
  by (simp add: worldStep_drift beforeResting_drift sceneHeap_0)

section \<open>Creating a joint\<close>


section \<open>Removing a disabled body\<close>

lemma findIndex_None: "(findIndex p xs = None) = (\<forall>x\<in>set xs. \<not> p x)"
  by (induction xs) auto

lemma findIndex_append_last:
  "\<forall>x\<in>set xs. \<not> p x \<Longrightarrow> p b \<Longrightarrow> findIndex p (xs @ [b]) = Some (length xs)"
  by (induction xs) auto

lemma splice1_last: "splice1 (length xs) (xs @ [b]) = xs"
  by (simp add: splice1_def)

lemma removeBody_after_enable:
  assumes "body \<in> set (disabledBodies world)"
    and "distinct (map (\<lambda>b. body_id (h b)) (allBodies world))"
  shows "removeBody (enableBody world h body) h body =
           world\<lparr>disabledBodies := remove1 body (disabledBodies world)\<rparr>"
proof -
  have d: "\<forall>b\<in>set (dynamicBodies world). body_id (h b) \<noteq> body_id (h body)"
    using assms by (auto simp: allBodies_def)
  have s: "\<forall>b\<in>set (staticBodies world). body_id (h b) \<noteq> body_id (h body)"
    using assms by (auto simp: allBodies_def)
  have nd: "body \<notin> set (dynamicBodies world)" and ns: "body \<notin> set (staticBodies world)"
    using d s by auto
  show ?thesis
  proof (cases "static (h body)")
    case True
    have "enableBody world h body =
        world\<lparr>staticBodies := staticBodies world @ [body],
              disabledBodies := remove1 body (disabledBodies world)\<rparr>"
      using True ns assms(1) by (simp add: enableBody_def Let_def)
    then show ?thesis
      using True s by (simp add: removeBody_def findIndex_append_last splice1_last)
  next
    case False
    have "enableBody world h body =
        world\<lparr>dynamicBodies := dynamicBodies world @ [body],
              disabledBodies := remove1 body (disabledBodies world)\<rparr>"
      using False nd assms(1) by (simp add: enableBody_def Let_def)
    then show ?thesis
      using False d by (simp add: removeBody_def findIndex_append_last splice1_last)
  qed
qed

text \<open>
  C10. In a world whose bodies carry distinct ids (so that no body is in two
  collections), \<open>removeBody\<close> called with a body of the disabled collection leaves the
  world as it is: the search runs over the static or the dynamic collection only, and
  the body is still among \<open>allBodies\<close>. After \<open>enableBody\<close> the same call removes it.
\<close>

theorem removeBody_disabled:
  assumes "body \<in> set (disabledBodies world)"
    and "distinct (map (\<lambda>b. body_id (h b)) (allBodies world))"
  shows "removeBody world h body = world \<and>
         body \<in> set (allBodies (removeBody world h body)) \<and>
         body \<notin> set (allBodies (removeBody (enableBody world h body) h body))"
proof -
  have d: "\<forall>b\<in>set (dynamicBodies world). body_id (h b) \<noteq> body_id (h body)"
    using assms by (auto simp: allBodies_def)
  have s: "\<forall>b\<in>set (staticBodies world). body_id (h b) \<noteq> body_id (h body)"
    using assms by (auto simp: allBodies_def)
  have "findIndex (\<lambda>b. body_id (h b) = body_id (h body)) (dynamicBodies world) = None"
    using d by (simp add: findIndex_None)
  moreover have "findIndex (\<lambda>b. body_id (h b) = body_id (h body)) (staticBodies world) = None"
    using s by (simp add: findIndex_None)
  ultimately have same: "removeBody world h body = world"
    by (simp add: removeBody_def)
  have "distinct (disabledBodies world)"
    using assms(2) by (simp add: allBodies_def distinct_map)
  then have "body \<notin> set (remove1 body (disabledBodies world))"
    by simp
  then have gone: "body \<notin> set (allBodies (removeBody (enableBody world h body) h body))"
    using d s by (auto simp: removeBody_after_enable [OF assms] allBodies_def)
  show ?thesis using same gone assms(1) by (simp add: allBodies_def)
qed

theorem removeBody_disabled_witness:
  "2 \<in> set (disabledBodies sceneWorld) \<and>
   distinct (map (\<lambda>b. body_id (sceneHeap b)) (allBodies sceneWorld)) \<and>
   removeBody sceneWorld sceneHeap 2 = sceneWorld \<and>
   2 \<in> set (allBodies (removeBody sceneWorld sceneHeap 2)) \<and>
   2 \<notin> set (allBodies (removeBody (enableBody sceneWorld sceneHeap 2) sceneHeap 2))"
proof -
  have a: "2 \<in> set (disabledBodies sceneWorld)" by (simp add: sceneWorld_eq)
  have b: "distinct (map (\<lambda>b. body_id (sceneHeap b)) (allBodies sceneWorld))"
    by (simp add: sceneWorld_eq allBodies_def sceneHeap_ids)
  show ?thesis using removeBody_disabled [OF a b] a b by blast
qed

end
